theory Spec2Isabelle
  imports Complex_Main "HOL-Library.Multiset"
begin

section \<open>Plotting finite-element functions: a model of \<^verbatim>\<open>firedrake/plot.py\<close>\<close>

text \<open>
  The module samples a finite-element function at reference points of every mesh cell
  and hands the numbers to a plotting library. The model below follows the module
  function by function. Floating-point numbers are idealised as exact rationals, Python
  integers are \<^typ>\<open>int\<close> (or \<^typ>\<open>nat\<close> where the source only ever holds an index or a
  length), and every exception of the source is a value of the type \<open>error\<close>.
\<close>

subsection \<open>Exceptions\<close>

datatype error =
    RuntimeError string
  | KeyError
  | IndexError
  | ValueError
  | LinAlgError
  | MaskError

definition unsupported_functionality :: error where
  "unsupported_functionality = RuntimeError ''Unsupported functionality''"

definition matplotlib_missing :: error where
  "matplotlib_missing = RuntimeError ''Matplotlib not importable, is it installed?''"

definition not_in_notebook :: error where
  "not_in_notebook = RuntimeError ''Not in notebook''"

subsection \<open>Arrays\<close>

text \<open>
  A numpy array is its shape together with its elements in row-major (C) order.
  An array is well formed when it has as many elements as its shape says.
\<close>

record 'a ndarray =
  shape :: "nat list"
  flat :: "'a list"

definition wf_array :: "'a ndarray \<Rightarrow> bool" where
  "wf_array a = (length (flat a) = prod_list (shape a))"

definition np_size :: "'a ndarray \<Rightarrow> nat" where
  "np_size a = length (flat a)"

text \<open>
  \<^verbatim>\<open>a.reshape(dims)\<close>: the elements stay in their order; one entry of \<open>dims\<close> may be
  \<open>-1\<close> and is then computed from the size. numpy raises \<^verbatim>\<open>ValueError\<close> when the
  sizes do not agree.
\<close>

definition np_reshape :: "'a ndarray \<Rightarrow> int list \<Rightarrow> error + 'a ndarray" where
  "np_reshape a dims =
     (let known = prod_list (map nat (filter (\<lambda>d. d \<noteq> -1) dims));
          unknowns = length (filter (\<lambda>d. d = -1) dims)
      in if (\<exists>d \<in> set dims. d < -1) \<or> 1 < unknowns then Inl ValueError
         else if unknowns = 1 then
           (if known = 0 \<or> np_size a mod known \<noteq> 0 then Inl ValueError
            else Inr \<lparr>shape = map (\<lambda>d. if d = -1 then np_size a div known else nat d) dims,
                      flat = flat a\<rparr>)
         else if known = np_size a then Inr \<lparr>shape = map nat dims, flat = flat a\<rparr>
         else Inl ValueError)"

text \<open>\<^verbatim>\<open>a.T\<close> reverses the axes; only ranks up to three occur in the module.\<close>

definition np_T :: "'a ndarray \<Rightarrow> 'a ndarray" where
  "np_T a =
     (case shape a of
        [m, n] \<Rightarrow>
          \<lparr>shape = [n, m],
           flat = concat (map (\<lambda>j. map (\<lambda>i. flat a ! (i * n + j)) [0..<m]) [0..<n])\<rparr>
      | [l, m, n] \<Rightarrow>
          \<lparr>shape = [n, m, l],
           flat = concat (map (\<lambda>k. concat (map (\<lambda>j.
                    map (\<lambda>i. flat a ! ((i * m + j) * n + k)) [0..<l]) [0..<m])) [0..<n])\<rparr>
      | _ \<Rightarrow> a)"

text \<open>
  The rows of an array along its first axis: row \<open>i\<close> of an array of shape \<open>n # rest\<close>
  is the \<open>i\<close>-th block of \<open>prod_list rest\<close> elements.
\<close>

definition block :: "nat \<Rightarrow> 'a list \<Rightarrow> nat \<Rightarrow> 'a list" where
  "block r xs i = take r (drop (i * r) xs)"

definition shape0 :: "'a ndarray \<Rightarrow> error + nat" where
  "shape0 a = (case shape a of [] \<Rightarrow> Inl IndexError | n # _ \<Rightarrow> Inr n)"

text \<open>\<^verbatim>\<open>a[i]\<close> for an integer \<open>i\<close> that is not negative.\<close>

definition np_row :: "'a ndarray \<Rightarrow> nat \<Rightarrow> error + 'a ndarray" where
  "np_row a i =
     (case shape a of
        [] \<Rightarrow> Inl IndexError
      | n # rest \<Rightarrow>
          if n \<le> i then Inl IndexError
          else Inr \<lparr>shape = rest, flat = block (prod_list rest) (flat a) i\<rparr>)"

text \<open>
  \<^verbatim>\<open>a[idx]\<close> for an array \<open>idx\<close> of indices into the first axis: the result has the
  shape of \<open>idx\<close> followed by the remaining axes of \<open>a\<close>.
\<close>

definition np_take :: "'a ndarray \<Rightarrow> nat ndarray \<Rightarrow> error + 'a ndarray" where
  "np_take a idx =
     (case shape a of
        [] \<Rightarrow> Inl IndexError
      | n # rest \<Rightarrow>
          if \<exists>i \<in> set (flat idx). n \<le> i then Inl IndexError
          else Inr \<lparr>shape = shape idx @ rest,
                    flat = concat (map (block (prod_list rest) (flat a)) (flat idx))\<rparr>)"

text \<open>
  \<^verbatim>\<open>a[(rows, cols)]\<close>: one index array for each of the first two axes, as
  \<^verbatim>\<open>np.triu_indices\<close> returns them.
\<close>

definition np_take2 :: "'a ndarray \<Rightarrow> nat list \<times> nat list \<Rightarrow> error + 'a ndarray" where
  "np_take2 a iu =
     (case shape a of
        l # m # rest \<Rightarrow>
          if length (fst iu) \<noteq> length (snd iu) then Inl IndexError
          else if (\<exists>i \<in> set (fst iu). l \<le> i) \<or> (\<exists>j \<in> set (snd iu). m \<le> j)
            then Inl IndexError
          else Inr \<lparr>shape = length (fst iu) # rest,
                    flat = concat (map (\<lambda>(i, j). block (prod_list rest) (flat a) (i * m + j))
                                       (zip (fst iu) (snd iu)))\<rparr>
      | _ \<Rightarrow> Inl IndexError)"

text \<open>
  \<^verbatim>\<open>np.triu_indices(n)\<close>: the row and the column indices of the upper triangle of an
  \<open>n \<times> n\<close> array, row by row.
\<close>

definition triu_pairs :: "nat \<Rightarrow> (nat \<times> nat) list" where
  "triu_pairs n = concat (map (\<lambda>i. map (\<lambda>j. (i, j)) [i..<n]) [0..<n])"

definition np_triu_indices :: "nat \<Rightarrow> nat list \<times> nat list" where
  "np_triu_indices n = (map fst (triu_pairs n), map snd (triu_pairs n))"

text \<open>
  \<^verbatim>\<open>np.linspace(0.0, 1.0, num=n)\<close>: numpy computes \<open>arange(n) * step\<close> with
  \<open>step = 1 / (n - 1)\<close> when \<open>n > 1\<close>, and \<open>arange(n) * 1\<close> otherwise; a negative
  \<open>n\<close> is a \<^verbatim>\<open>ValueError\<close>.
\<close>

definition linspace_point :: "int \<Rightarrow> nat \<Rightarrow> rat" where
  "linspace_point num i =
     (if 1 < num then of_nat i * (1 / of_int (num - 1)) else of_nat i * 1)"

definition np_linspace01 :: "int \<Rightarrow> error + rat ndarray" where
  "np_linspace01 num =
     (if num < 0 then Inl ValueError
      else Inr \<lparr>shape = [nat num], flat = map (linspace_point num) [0..<nat num]\<rparr>)"

text \<open>
  \<^verbatim>\<open>np.meshgrid(x, y)\<close> (indexing \<^verbatim>\<open>xy\<close>): both inputs are flattened; both results
  have shape \<open>(len(y), len(x))\<close>, the first repeating \<open>x\<close> along the rows, the second
  repeating each element of \<open>y\<close> along its row.
\<close>

definition np_meshgrid :: "'a ndarray \<Rightarrow> 'a ndarray \<Rightarrow> 'a ndarray \<times> 'a ndarray" where
  "np_meshgrid x y =
     (let nx = np_size x; ny = np_size y
      in (\<lparr>shape = [ny, nx], flat = concat (replicate ny (flat x))\<rparr>,
          \<lparr>shape = [ny, nx], flat = concat (map (replicate nx) (flat y))\<rparr>))"

text \<open>\<^verbatim>\<open>np.array([a, b])\<close> for two arrays of one shape, and \<^verbatim>\<open>np.asarray([a])\<close>.\<close>

definition np_array2 :: "'a ndarray \<Rightarrow> 'a ndarray \<Rightarrow> 'a ndarray" where
  "np_array2 a b = \<lparr>shape = 2 # shape a, flat = flat a @ flat b\<rparr>"

definition np_array1 :: "'a ndarray \<Rightarrow> 'a ndarray" where
  "np_array1 a = \<lparr>shape = 1 # shape a, flat = flat a\<rparr>"

text \<open>\<^verbatim>\<open>np.fliplr(a)\<close> reverses the second axis.\<close>

definition np_fliplr :: "'a ndarray \<Rightarrow> 'a ndarray" where
  "np_fliplr a =
     (case shape a of
        l # m # rest \<Rightarrow>
          \<lparr>shape = shape a,
           flat = concat (map (\<lambda>i. concat (map (\<lambda>j.
                    block (prod_list rest) (flat a) (i * m + (m - 1 - j))) [0..<m])) [0..<l])\<rparr>
      | _ \<Rightarrow> a)"

text \<open>
  \<^verbatim>\<open>np.dstack((a, b))\<close>: arrays of rank one and two are first given the shapes
  \<open>(1, N, 1)\<close> and \<open>(M, N, 1)\<close>, then the two are joined along the third axis.
\<close>

definition atleast_3d :: "nat list \<Rightarrow> nat list" where
  "atleast_3d s = (case s of [] \<Rightarrow> [1, 1, 1] | [n] \<Rightarrow> [1, n, 1] | [m, n] \<Rightarrow> [m, n, 1] | _ \<Rightarrow> s)"

definition np_dstack :: "'a ndarray \<Rightarrow> 'a ndarray \<Rightarrow> error + 'a ndarray" where
  "np_dstack a b =
     (case (atleast_3d (shape a), atleast_3d (shape b)) of
        (l # m # k # rest, l' # m' # k' # rest') \<Rightarrow>
          if l = l' \<and> m = m' \<and> rest = rest' then
            Inr \<lparr>shape = l # m # (k + k') # rest,
                 flat = concat (map (\<lambda>i. block (k * prod_list rest) (flat a) i @
                                          block (k' * prod_list rest) (flat b) i) [0..<l * m])\<rparr>
          else Inl ValueError
      | _ \<Rightarrow> Inl ValueError)"

text \<open>
  \<^verbatim>\<open>np.dot(a, b)\<close> sums over the last axis of \<open>a\<close> and the second-to-last axis of \<open>b\<close>:
  for \<open>a\<close> of shape \<open>pa @ [k]\<close> and \<open>b\<close> of shape \<open>pb @ [k, n]\<close> the result has shape
  \<open>pa @ pb @ [n]\<close>.
\<close>

definition np_dot :: "rat ndarray \<Rightarrow> rat ndarray \<Rightarrow> error + rat ndarray" where
  "np_dot a b =
     (if length (shape a) < 1 \<or> length (shape b) < 2 then Inl ValueError
      else
        let k = last (shape a); pa = butlast (shape a);
            n = last (shape b); k' = last (butlast (shape b));
            pb = butlast (butlast (shape b))
        in if k \<noteq> k' then Inl ValueError
           else Inr \<lparr>shape = pa @ pb @ [n],
                     flat = concat (map (\<lambda>i. concat (map (\<lambda>s. map (\<lambda>c.
                              (\<Sum>j \<leftarrow> [0..<k]. block k (flat a) i ! j *
                                                block (k * n) (flat b) s ! (j * n + c)))
                              [0..<n]) [0..<prod_list pb])) [0..<prod_list pa])\<rparr>)"

text \<open>\<^verbatim>\<open>a.transpose([1, 0, 2])\<close> for an array of rank three.\<close>

definition np_transpose102 :: "'a ndarray \<Rightarrow> error + 'a ndarray" where
  "np_transpose102 a =
     (case shape a of
        [l, m, n] \<Rightarrow>
          Inr \<lparr>shape = [m, l, n],
               flat = concat (map (\<lambda>j. concat (map (\<lambda>i.
                        block n (flat a) (i * m + j)) [0..<l])) [0..<m])\<rparr>
      | _ \<Rightarrow> Inl ValueError)"

text \<open>
  \<^verbatim>\<open>np.einsum("ijk,jl->ilk", data, elem)\<close>: \<open>data\<close> must have rank three, \<open>elem\<close> rank
  two, and their \<open>j\<close> axes the same length.
\<close>

definition einsum_ijk_jl_ilk :: "rat ndarray \<Rightarrow> rat ndarray \<Rightarrow> error + rat ndarray" where
  "einsum_ijk_jl_ilk data elem =
     (case (shape data, shape elem) of
        ([ni, nj, nk], [nj', nl]) \<Rightarrow>
          if nj \<noteq> nj' then Inl ValueError
          else Inr \<lparr>shape = [ni, nl, nk],
                    flat = concat (map (\<lambda>i. concat (map (\<lambda>l. map (\<lambda>k.
                             (\<Sum>j \<leftarrow> [0..<nj]. flat data ! ((i * nj + j) * nk + k) *
                                               flat elem ! (j * nl + l)))
                             [0..<nk]) [0..<nl])) [0..<ni])\<rparr>
      | _ \<Rightarrow> Inl ValueError)"

text \<open>
  \<^verbatim>\<open>np.argsort(x)\<close> of a one-dimensional array: a permutation of the indices that
  sorts \<open>x\<close>. numpy does not fix the order of equal elements; the model keeps it.
\<close>

definition np_argsort :: "rat list \<Rightarrow> nat list" where
  "np_argsort xs = sort_key (\<lambda>i. xs ! i) [0..<length xs]"

text \<open>\<^verbatim>\<open>x[order]\<close> for a one-dimensional array and a list of indices.\<close>

definition np_take1 :: "'a list \<Rightarrow> nat list \<Rightarrow> error + 'a list" where
  "np_take1 xs order =
     (if \<exists>i \<in> set order. length xs \<le> i then Inl IndexError else Inr (map (\<lambda>i. xs ! i) order))"

text \<open>
  \<^verbatim>\<open>np.linalg.inv\<close>, in exact arithmetic: Gauss-Jordan elimination on the matrix
  extended by the identity; \<^verbatim>\<open>LinAlgError\<close> for a matrix that is not square or is
  singular.
\<close>

fun gauss_jordan :: "nat list \<Rightarrow> rat list list \<Rightarrow> rat list list option" where
  "gauss_jordan [] A = Some A"
| "gauss_jordan (c # cs) A =
     (case filter (\<lambda>r. A ! r ! c \<noteq> 0) [c..<length A] of
        [] \<Rightarrow> None
      | p # _ \<Rightarrow>
          let A1 = A[c := A ! p, p := A ! c];
              prow = map (\<lambda>v. v / (A1 ! c ! c)) (A1 ! c);
              A2 = map (\<lambda>i. if i = c then prow
                             else map2 (\<lambda>a b. a - (A1 ! i ! c) * b) (A1 ! i) prow)
                       [0..<length A1]
          in gauss_jordan cs A2)"

definition np_linalg_inv :: "rat ndarray \<Rightarrow> error + rat ndarray" where
  "np_linalg_inv M =
     (case shape M of
        [m, n] \<Rightarrow>
          if m \<noteq> n then Inl LinAlgError
          else
            (let aug = map (\<lambda>i. block n (flat M) i @ map (\<lambda>j. if i = j then 1 else 0) [0..<n])
                           [0..<n]
             in case gauss_jordan [0..<n] aug of
                  None \<Rightarrow> Inl LinAlgError
                | Some R \<Rightarrow> Inr \<lparr>shape = [n, n], flat = concat (map (drop n) R)\<rparr>)
      | _ \<Rightarrow> Inl LinAlgError)"

subsection \<open>Elements, meshes and functions\<close>

text \<open>
  These are the objects of the finite-element library that the module reads.
  An element is given by its basis functions on the reference cell and by the points of
  its nodes (\<^verbatim>\<open>dual_basis()[j].get_point_dict().keys()[0]\<close>). Its tabulation of order 0
  at a set of points is a dictionary with the single key \<open>(0,)\<close> or \<open>(0, 0)\<close> (one zero
  for each dimension of the reference cell), whose value holds at \<open>[j, l]\<close> the value of
  basis function \<open>j\<close> at point \<open>l\<close>.
\<close>

datatype cell = Vertex | Interval | Triangle | Quadrilateral | Tetrahedron | Hexahedron

record fiat_element =
  ref_dim :: nat
  basis_funs :: "(rat list \<Rightarrow> rat) list"
  dual_points :: "rat list list"

definition points_rows :: "rat ndarray \<Rightarrow> rat list list" where
  "points_rows points =
     (case shape points of
        [] \<Rightarrow> []
      | n # rest \<Rightarrow> map (block (prod_list rest) (flat points)) [0..<n])"

definition tabulate0 :: "fiat_element \<Rightarrow> rat ndarray \<Rightarrow> (nat list \<times> rat ndarray) list" where
  "tabulate0 el points =
     [(replicate (ref_dim el) 0,
       \<lparr>shape = [length (basis_funs el), length (points_rows points)],
        flat = concat (map (\<lambda>b. map b (points_rows points)) (basis_funs el))\<rparr>)]"

text \<open>
  What the module reads of a function: the degree of its element, the element, the
  nodes of every cell (\<^verbatim>\<open>cell_node_list\<close>), the coefficients (\<^verbatim>\<open>dat.data_ro\<close>, which
  has one axis for a function space of value size one) and \<^verbatim>\<open>ufl_shape\<close>. The
  coordinates of a mesh are such a function; a function on a mesh carries the mesh.
\<close>

record function_data =
  degree :: nat
  element :: fiat_element
  cell_node_list :: "nat ndarray"
  data_ro :: "rat ndarray"
  ufl_shape :: "nat list"

record mesh =
  ufl_cell :: cell
  geometric_dimension :: nat
  topological_dimension :: nat
  num_cells :: nat
  coordinates :: function_data

record fe_function = function_data +
  mesh_of :: mesh

subsection \<open>The Field Evaluator: \<^verbatim>\<open>_calculate_values\<close>\<close>

definition tabulate_keys :: "nat \<Rightarrow> nat list option" where
  "tabulate_keys dimension =
     (if dimension = 1 then Some [0] else if dimension = 2 then Some [0, 0] else None)"

text \<open>
  \<^verbatim>\<open>ma.compress_rows(ma.masked_array(cell_node_list, mask=np.tile(cell_mask.reshape(-1, 1),
  cell_node_list.shape[1])))\<close>: the mask of a cell is repeated over the nodes of the cell,
  and the rows with a masked entry are removed.
\<close>

definition compress_rows :: "nat ndarray \<Rightarrow> bool list \<Rightarrow> error + nat ndarray" where
  "compress_rows cnl cell_mask =
     (case shape cnl of
        [c, m] \<Rightarrow>
          if length cell_mask \<noteq> c then Inl MaskError
          else
            (let kept = filter (\<lambda>i. \<not> (cell_mask ! i \<and> 0 < m)) [0..<c]
             in Inr \<lparr>shape = [length kept, m],
                     flat = concat (map (block m (flat cnl)) kept)\<rparr>)
      | [] \<Rightarrow> Inl IndexError
      | [c] \<Rightarrow> Inl IndexError
      | _ \<Rightarrow> Inl MaskError)"

text \<open>The nodes of the cells that \<^verbatim>\<open>_calculate_values\<close> evaluates: all, or those not masked.\<close>

definition selected_cell_nodes ::
  "'a function_data_scheme \<Rightarrow> bool list option \<Rightarrow> error + nat ndarray"
where
  "selected_cell_nodes f cell_mask =
     (case cell_mask of
        None \<Rightarrow> Inr (cell_node_list f)
      | Some m \<Rightarrow> compress_rows (cell_node_list f) m)"

text \<open>
  The number of cells that are evaluated, of \<open>c\<close> cells with \<open>m\<close> nodes each: all cells
  without a mask, and the cells that are not masked otherwise (a mask repeated over no
  nodes masks nothing).
\<close>

definition n_selected :: "nat \<Rightarrow> nat \<Rightarrow> bool list option \<Rightarrow> nat" where
  "n_selected c m cell_mask =
     (case cell_mask of
        None \<Rightarrow> c
      | Some msk \<Rightarrow> if 0 < m then length (filter Not msk) else c)"

definition calculate_values ::
  "'a function_data_scheme \<Rightarrow> rat ndarray \<Rightarrow> nat \<Rightarrow> bool list option \<Rightarrow> error + rat ndarray"
where
  "calculate_values f points dimension cell_mask =
     (case tabulate_keys dimension of
        None \<Rightarrow> Inl KeyError
      | Some key \<Rightarrow>
     (case map_of (tabulate0 (element f) points) key of
        None \<Rightarrow> Inl KeyError
      | Some elem \<Rightarrow>
     (case selected_cell_nodes f cell_mask of
        Inl e \<Rightarrow> Inl e
      | Inr cnl \<Rightarrow>
     (case np_take (data_ro f) cnl of
        Inl e \<Rightarrow> Inl e
      | Inr data \<Rightarrow>
          let vec_length = (if ufl_shape f = [] then 1 else hd (ufl_shape f));
              data = (if vec_length = 1 then \<lparr>shape = shape data @ [1], flat = flat data\<rparr>
                      else data)
          in einsum_ijk_jl_ilk data elem))))"

subsection \<open>The Sampling Grid Generator and \<^verbatim>\<open>_calculate_points\<close>\<close>

text \<open>
  The reference points that \<^verbatim>\<open>_calculate_points\<close> builds for the cell of the mesh,
  before it evaluates the function and the coordinates at them.
\<close>

text \<open>\<^verbatim>\<open>np.array(np.meshgrid(x, y)).T\<close>: the array of the pairs \<open>(x[a], y[b])\<close> at \<open>[a, b]\<close>.\<close>

definition meshgrid_T :: "'a ndarray \<Rightarrow> 'a ndarray \<Rightarrow> 'a ndarray" where
  "meshgrid_T x y = (case np_meshgrid x y of (gx, gy) \<Rightarrow> np_T (np_array2 gx gy))"

definition sample_points :: "cell \<Rightarrow> int \<Rightarrow> error + rat ndarray" where
  "sample_points c num_points =
     (if c = Interval then
        (case np_linspace01 num_points of
           Inl e \<Rightarrow> Inl e
         | Inr l \<Rightarrow> np_reshape l [-1, 1])
      else if c = Quadrilateral then
        (case np_linspace01 num_points of
           Inl e \<Rightarrow> Inl e
         | Inr l \<Rightarrow>
        (case np_reshape l [-1, 1] of
           Inl e \<Rightarrow> Inl e
         | Inr points_1d \<Rightarrow>
             np_reshape (meshgrid_T points_1d points_1d) [-1, 2]))
      else if c = Triangle then
        (case np_linspace01 num_points of
           Inl e \<Rightarrow> Inl e
         | Inr l \<Rightarrow>
        (case np_reshape l [-1, 1] of
           Inl e \<Rightarrow> Inl e
         | Inr points_1d \<Rightarrow>
        (case np_reshape (np_fliplr (np_array1 points_1d)) [-1] of
           Inl e \<Rightarrow> Inl e
         | Inr points_1d_rev \<Rightarrow>
             (let iu = np_triu_indices (nat num_points)
              in np_take2 (meshgrid_T points_1d points_1d_rev) iu))))
      else Inl unsupported_functionality)"


definition calculate_points ::
  "fe_function \<Rightarrow> int \<Rightarrow> nat \<Rightarrow> bool list option \<Rightarrow> error + (rat ndarray \<times> rat ndarray)"
where
  "calculate_points f num_points dimension cell_mask =
     (case sample_points (ufl_cell (mesh_of f)) num_points of
        Inl e \<Rightarrow> Inl e
      | Inr points \<Rightarrow>
     (case calculate_values f points dimension cell_mask of
        Inl e \<Rightarrow> Inl e
      | Inr y_vals \<Rightarrow>
     (case calculate_values (coordinates (mesh_of f)) points dimension cell_mask of
        Inl e \<Rightarrow> Inl e
      | Inr x_vals \<Rightarrow> Inr (x_vals, y_vals))))"

subsection \<open>One-dimensional point assembly: \<^verbatim>\<open>calculate_one_dim_points\<close>\<close>

definition calculate_one_dim_points ::
  "fe_function \<Rightarrow> int \<Rightarrow> bool list option \<Rightarrow> error + rat ndarray"
where
  "calculate_one_dim_points f num_points cell_mask =
     (case calculate_points f num_points 1 cell_mask of
        Inl e \<Rightarrow> Inl e
      | Inr (x_vals, y_vals) \<Rightarrow>
     (case np_reshape x_vals [-1] of
        Inl e \<Rightarrow> Inl e
      | Inr x_vals \<Rightarrow>
     (case np_reshape y_vals [-1] of
        Inl e \<Rightarrow> Inl e
      | Inr y_vals \<Rightarrow>
          (let order = np_argsort (flat x_vals)
           in case np_take1 (flat x_vals) order of
                Inl e \<Rightarrow> Inl e
              | Inr xs \<Rightarrow>
             (case np_take1 (flat y_vals) order of
                Inl e \<Rightarrow> Inl e
              | Inr ys \<Rightarrow>
                  Inr (np_array2 \<lparr>shape = [length xs], flat = xs\<rparr>
                                 \<lparr>shape = [length ys], flat = ys\<rparr>))))))"

subsection \<open>The plotting library and the environment\<close>

text \<open>
  What the module asks of its environment: whether the plotting library and the notebook
  widgets can be imported, the interpolation of a function or of the first spatial
  coordinate onto a discontinuous space of a given degree
  (\<^verbatim>\<open>Function(FunctionSpace(mesh, "DG", deg)).interpolate(...)\<close>), the uniform refinement
  of the triangulation of the reference cell
  (\<^verbatim>\<open>UniformTriRefiner(Triangulation(x, y)).refine_triangulation(False, depth)\<close>), and the
  notebook's \<^verbatim>\<open>interact\<close>, which receives the callback and the bounds and the start value
  of the slider, and may raise.

  A figure is represented by the artists on the axes that a call has drawn on; the calls
  of the plotting library record their arguments.
\<close>

datatype kwval = KNone | KBool bool | KInt int | KStr string

type_synonym kwargs = "(string \<times> kwval) list"

definition truthy :: "kwval \<Rightarrow> bool" where
  "truthy v = (case v of KNone \<Rightarrow> False | KBool b \<Rightarrow> b | KInt i \<Rightarrow> i \<noteq> 0 | KStr s \<Rightarrow> s \<noteq> [])"

text \<open>\<^verbatim>\<open>kwargs.pop(key, dflt)\<close>: the value, and the dictionary without the key.\<close>

definition pop :: "kwargs \<Rightarrow> string \<Rightarrow> kwval \<Rightarrow> kwval \<times> kwargs" where
  "pop kw key dflt =
     (case map_of kw key of
        None \<Rightarrow> (dflt, kw)
      | Some v \<Rightarrow> (v, filter (\<lambda>(k, _). k \<noteq> key) kw))"

datatype path_code = MOVETO | LINETO | CURVE3 | CURVE4

record path =
  vertices :: "rat ndarray"
  codes :: "path_code list"

record triangulation =
  tri_x :: "rat ndarray"
  tri_y :: "rat ndarray"
  triangles :: "nat ndarray"

datatype artist =
    Line2D "rat ndarray" "rat ndarray" kwargs
  | EmptyPlot kwargs
  | PathPatch path
  | Trisurf triangulation "rat ndarray" kwval kwargs
  | Tricontour triangulation "rat ndarray" kwargs
  | Slider nat
  | Button

type_synonym axes = "artist list"

datatype pyval = PyNone | Figure "artist list"

datatype interp_expr = Expr_function fe_function | Expr_x0

record env =
  matplotlib_importable :: bool
  ipywidgets_importable :: bool
  dg_interpolate :: "mesh \<Rightarrow> nat \<Rightarrow> interp_expr \<Rightarrow> fe_function"
  refine_triangulation :: "rat list \<Rightarrow> rat list \<Rightarrow> nat \<Rightarrow> triangulation"
  interact :: "(int \<Rightarrow> error + pyval) \<Rightarrow> int \<Rightarrow> int \<Rightarrow> int \<Rightarrow> error option"

text \<open>
  A function on the space \<^verbatim>\<open>FunctionSpace(mesh, "DG", deg)\<close> has that mesh and that degree,
  whatever the interpolation computes.
\<close>

definition dg_function :: "env \<Rightarrow> mesh \<Rightarrow> nat \<Rightarrow> interp_expr \<Rightarrow> fe_function" where
  "dg_function env m deg expr = (dg_interpolate env m deg expr)\<lparr>degree := deg, mesh_of := m\<rparr>"

definition new_axes :: "axes option \<Rightarrow> axes" where
  "new_axes ax = (case ax of None \<Rightarrow> [] | Some a \<Rightarrow> a)"

subsection \<open>The Triangulation Builder: \<^verbatim>\<open>two_dimension_triangle_Z\<close>\<close>

text \<open>
  \<^verbatim>\<open>int(log(sqrt(num_sample_points), 4))\<close>: the logarithm to base 16, rounded down;
  \<^verbatim>\<open>math\<close> raises \<^verbatim>\<open>ValueError\<close> for a count that is not positive.
\<close>

fun ilog16 :: "nat \<Rightarrow> nat" where
  "ilog16 n = (if n < 16 then 0 else Suc (ilog16 (n div 16)))"

declare ilog16.simps [simp del]

definition sub_triangles :: "int \<Rightarrow> error + nat" where
  "sub_triangles num_sample_points =
     (if num_sample_points \<le> 0 then Inl ValueError else Inr (ilog16 (nat num_sample_points)))"

definition reference_vertices :: "cell \<Rightarrow> error + (rat list \<times> rat list)" where
  "reference_vertices c =
     (if c = Triangle then Inr ([0, 0, 1], [0, 1, 0])
      else if c = Quadrilateral then Inr ([0, 0, 1, 1], [0, 1, 0, 1])
      else Inl (RuntimeError ''Unsupported Functionality''))"

text \<open>
  \<^verbatim>\<open>add_idx = np.arange(num_cells).reshape(-1, 1, 1) * num_verts\<close> and
  \<^verbatim>\<open>(triangles + add_idx).reshape(-1, 3)\<close>: the array of triangles, of rank two, is
  repeated for every cell, cell \<open>c\<close> with \<open>c * num_verts\<close> added to every index.
\<close>

definition offset_triangles :: "nat ndarray \<Rightarrow> nat \<Rightarrow> nat \<Rightarrow> error + nat ndarray" where
  "offset_triangles tris n_cells num_verts =
     (case shape tris of
        [t, k] \<Rightarrow>
          np_reshape
            \<lparr>shape = [n_cells, t, k],
             flat = concat (map (\<lambda>c. map (\<lambda>v. v + c * num_verts) (flat tris)) [0..<n_cells])\<rparr>
            [-1, 3]
      | _ \<Rightarrow> Inl ValueError)"

definition two_dimension_triangle_Z ::
  "env \<Rightarrow> fe_function \<Rightarrow> int \<Rightarrow> error + (triangulation \<times> rat ndarray)"
where
  "two_dimension_triangle_Z env f num_sample_points =
     (if \<not> matplotlib_importable env then Inl matplotlib_missing
      else
     (case reference_vertices (ufl_cell (mesh_of f)) of
        Inl e \<Rightarrow> Inl e
      | Inr (x, y) \<Rightarrow>
     (case sub_triangles num_sample_points of
        Inl e \<Rightarrow> Inl e
      | Inr depth \<Rightarrow>
          (let tri = refine_triangulation env x y depth;
               tris = triangles tri; x_ref = tri_x tri; y_ref = tri_y tri
           in if flat tris = [] then Inl ValueError
              else
                (let num_verts = Max (set (flat tris)) + 1
                 in case shape0 (cell_node_list f) of
                      Inl e \<Rightarrow> Inl e
                    | Inr n_cells \<Rightarrow>
                   (case np_dstack x_ref y_ref of
                      Inl e \<Rightarrow> Inl e
                    | Inr d \<Rightarrow>
                   (case np_reshape d [-1, 2] of
                      Inl e \<Rightarrow> Inl e
                    | Inr ref_points \<Rightarrow>
                   (case calculate_values f ref_points 2 None of
                      Inl e \<Rightarrow> Inl e
                    | Inr z_vals \<Rightarrow>
                   (case calculate_values (coordinates (mesh_of f)) ref_points 2 None of
                      Inl e \<Rightarrow> Inl e
                    | Inr coords_vals \<Rightarrow>
                   (case np_reshape z_vals [-1] of
                      Inl e \<Rightarrow> Inl e
                    | Inr Z \<Rightarrow>
                   (case np_reshape coords_vals [-1, 2] of
                      Inl e \<Rightarrow> Inl e
                    | Inr c2 \<Rightarrow>
                   (case np_row (np_T c2) 0 of
                      Inl e \<Rightarrow> Inl e
                    | Inr X \<Rightarrow>
                   (case np_row (np_T c2) 1 of
                      Inl e \<Rightarrow> Inl e
                    | Inr Y \<Rightarrow>
                   (case offset_triangles tris n_cells num_verts of
                      Inl e \<Rightarrow> Inl e
                    | Inr all_triangles \<Rightarrow>
                        Inr (\<lparr>tri_x = X, tri_y = Y, triangles = all_triangles\<rparr>, Z)))))))))))))))"

subsection \<open>The Bezier Reconstructor\<close>

text \<open>
  \<^verbatim>\<open>_bernstein(x, k, n)\<close>: \<^verbatim>\<open>comb = factorial(n) / factorial(k) / factorial(n - k)\<close> in
  integer division, then \<^verbatim>\<open>comb * (x ** k) * ((1 - x) ** (n - k))\<close>. The module calls it
  with \<open>k \<le> n\<close> only.
\<close>

definition bernstein :: "rat \<Rightarrow> nat \<Rightarrow> nat \<Rightarrow> rat" where
  "bernstein x k n =
     (let comb = (fact n :: nat) div fact k div fact (n - k)
      in of_nat comb * (x ^ k) * ((1 - x) ^ (n - k)))"

text \<open>\<^verbatim>\<open>basis[j].get_point_dict().keys()[0][0]\<close>: the first coordinate of node \<open>j\<close>.\<close>

definition node_coordinate :: "fiat_element \<Rightarrow> nat \<Rightarrow> error + rat" where
  "node_coordinate el j =
     (if length (dual_points el) \<le> j then Inl IndexError
      else case dual_points el ! j of [] \<Rightarrow> Inl IndexError | x # _ \<Rightarrow> Inr x)"

text \<open>The first exception of a sequence of computations, or all their results.\<close>

fun collect :: "(error + 'a) list \<Rightarrow> error + 'a list" where
  "collect [] = Inr []"
| "collect (x # xs) =
     (case x of
        Inl e \<Rightarrow> Inl e
      | Inr v \<Rightarrow> (case collect xs of Inl e \<Rightarrow> Inl e | Inr vs \<Rightarrow> Inr (v # vs)))"

text \<open>The matrix \<open>M\<close> of \<^verbatim>\<open>_bezier_calculate_points\<close>, filled row by row.\<close>

definition bezier_matrix :: "'a function_data_scheme \<Rightarrow> error + rat ndarray" where
  "bezier_matrix f =
     (let deg = degree f
      in case collect (concat (map (\<lambda>i. map (\<lambda>j.
                 case node_coordinate (element f) j of
                   Inl e \<Rightarrow> Inl e
                 | Inr x \<Rightarrow> Inr (bernstein x i deg)) [0..<deg + 1]) [0..<deg + 1])) of
           Inl e \<Rightarrow> Inl e
         | Inr vs \<Rightarrow> Inr \<lparr>shape = [deg + 1, deg + 1], flat = vs\<rparr>)"

definition bezier_calculate_points :: "'a function_data_scheme \<Rightarrow> error + rat ndarray" where
  "bezier_calculate_points f =
     (case bezier_matrix f of
        Inl e \<Rightarrow> Inl e
      | Inr M \<Rightarrow>
     (case np_linalg_inv M of
        Inl e \<Rightarrow> Inl e
      | Inr M_inv \<Rightarrow>
     (case np_take (data_ro f) (cell_node_list f) of
        Inl e \<Rightarrow> Inl e
      | Inr d \<Rightarrow> np_dot d M_inv)))"

definition path_codes :: "nat \<Rightarrow> path_code list option" where
  "path_codes deg =
     (if deg = 1 then Some [MOVETO, LINETO]
      else if deg = 2 then Some [MOVETO, CURVE3, CURVE3]
      else if deg = 3 then Some [MOVETO, CURVE4, CURVE4, CURVE4]
      else None)"

function bezier_plot :: "env \<Rightarrow> fe_function \<Rightarrow> axes option \<Rightarrow> kwargs \<Rightarrow> error + pyval" where
  "bezier_plot env f ax kwargs =
     (if \<not> matplotlib_importable env then Inl matplotlib_missing
      else if degree f = 0 then
        bezier_plot env (dg_function env (mesh_of f) 1 (Expr_function f)) ax kwargs
      else
     (case bezier_calculate_points f of
        Inl e \<Rightarrow> Inl e
      | Inr y_vals \<Rightarrow>
     (case bezier_calculate_points (dg_function env (mesh_of f) (degree f) Expr_x0) of
        Inl e \<Rightarrow> Inl e
      | Inr x_vals \<Rightarrow>
     (case np_dstack x_vals y_vals of
        Inl e \<Rightarrow> Inl e
      | Inr vals \<Rightarrow>
     (case np_reshape vals [-1, 2] of
        Inl e \<Rightarrow> Inl e
      | Inr verts \<Rightarrow>
     (case path_codes (degree f) of
        None \<Rightarrow> Inl KeyError
      | Some cs \<Rightarrow>
     (case shape0 (cell_node_list f) of
        Inl e \<Rightarrow> Inl e
      | Inr n_cells \<Rightarrow>
          Inr (Figure (new_axes ax @
                 [PathPatch \<lparr>vertices = verts, codes = concat (replicate n_cells cs)\<rparr>,
                  EmptyPlot kwargs])))))))))"
  by pat_completeness auto
termination
  by (relation "measure (\<lambda>(env, f, ax, kwargs). if degree f = 0 then 1 else 0)")
     (simp_all add: dg_function_def)

declare bezier_plot.simps [simp del]

subsection \<open>Bezier interpolation of sampled points: \<^verbatim>\<open>interp_bezier\<close>\<close>

text \<open>The sample count of the Bezier option, and the cubic segments.\<close>

text \<open>
  In \<^verbatim>\<open>plot\<close>, for a 1D function of degree at least 4 with the \<^verbatim>\<open>bezier\<close> option:
  \<^verbatim>\<open>num_sample_points = int(num_sample_points / 3) * 3 + 1 if num_sample_points >= 4 else 4\<close>.
\<close>

definition bezier_sample_count :: "int \<Rightarrow> int" where
  "bezier_sample_count num_sample_points =
     (if num_sample_points \<ge> 4 then (num_sample_points div 3) * 3 + 1 else 4)"

text \<open>
  In \<^verbatim>\<open>interp_bezier\<close>, with \<open>n = pts.shape[1]\<close> points per cell:
  \<^verbatim>\<open>rows = np.arange(4)\<close>, \<^verbatim>\<open>cols = (np.arange((n - 1) / 3) * 3).reshape(-1, 1)\<close>,
  \<^verbatim>\<open>idx = rows + cols\<close>. The division is Python 2's integer division, and
  \<^verbatim>\<open>arange\<close> of a negative number is empty.
\<close>

definition bezier_segments :: "nat \<Rightarrow> nat" where
  "bezier_segments n = nat ((int n - 1) div 3)"

definition bezier_idx :: "nat \<Rightarrow> nat ndarray" where
  "bezier_idx n =
     (let rows = [0..<4]; cols = map (\<lambda>i. i * 3) [0..<bezier_segments n]
      in \<lparr>shape = [length cols, 4], flat = concat (map (\<lambda>c. map (\<lambda>r. r + c) rows) cols)\<rparr>)"

definition points_to_bezier_curve :: "rat ndarray \<Rightarrow> error + rat ndarray" where
  "points_to_bezier_curve pts =
     np_dot \<lparr>shape = [4, 4],
             flat = [1, 0, 0, 0,
                     - 5 / 6, 3, - 3 / 2, 1 / 3,
                     1 / 3, - 3 / 2, 3, - 5 / 6,
                     0, 0, 0, 1]\<rparr> pts"

text \<open>
  One pass of the loop over the cells:
  \<^verbatim>\<open>points_to_bezier_curve(pts[i, idx]).transpose([1, 0, 2]).reshape(-1, 2)\<close>.
\<close>

definition cell_curves :: "rat ndarray \<Rightarrow> nat ndarray \<Rightarrow> nat \<Rightarrow> error + rat ndarray" where
  "cell_curves pts idx i =
     (case np_row pts i of
        Inl e \<Rightarrow> Inl e
      | Inr p \<Rightarrow>
     (case np_take p idx of
        Inl e \<Rightarrow> Inl e
      | Inr q \<Rightarrow>
     (case points_to_bezier_curve q of
        Inl e \<Rightarrow> Inl e
      | Inr b \<Rightarrow>
     (case np_transpose102 b of
        Inl e \<Rightarrow> Inl e
      | Inr t \<Rightarrow> np_reshape t [-1, 2]))))"

text \<open>The loop; \<^verbatim>\<open>np.append\<close> without an axis joins the flattened arrays.\<close>

fun append_curves :: "rat ndarray \<Rightarrow> nat ndarray \<Rightarrow> nat list \<Rightarrow> rat list \<Rightarrow> error + rat list" where
  "append_curves pts idx [] verts = Inr verts"
| "append_curves pts idx (i # cells) verts =
     (case cell_curves pts idx i of
        Inl e \<Rightarrow> Inl e
      | Inr v \<Rightarrow> append_curves pts idx cells (verts @ flat v))"

definition interp_bezier ::
  "env \<Rightarrow> rat ndarray \<Rightarrow> nat \<Rightarrow> axes option \<Rightarrow> kwargs \<Rightarrow> error + pyval"
where
  "interp_bezier env pts n_cells ax kwargs =
     (if \<not> matplotlib_importable env then Inl matplotlib_missing
      else
     (case np_reshape (np_T pts) [int n_cells, -1, 2] of
        Inl e \<Rightarrow> Inl e
      | Inr pts' \<Rightarrow>
     (case append_curves pts' (bezier_idx (shape pts' ! 1)) [0..<n_cells] [] of
        Inl e \<Rightarrow> Inl e
      | Inr vs \<Rightarrow>
     (case np_reshape \<lparr>shape = [length vs], flat = vs\<rparr> [-1, 2] of
        Inl e \<Rightarrow> Inl e
      | Inr verts \<Rightarrow>
          Inr (Figure (new_axes ax @
                 [PathPatch \<lparr>vertices = verts,
                             codes = concat (replicate (hd (shape verts) div 4)
                                               [MOVETO, CURVE4, CURVE4, CURVE4])\<rparr>,
                  EmptyPlot kwargs]))))))"

subsection \<open>The renderers\<close>

definition two_dimension_surface ::
  "env \<Rightarrow> fe_function \<Rightarrow> int \<Rightarrow> axes option \<Rightarrow> kwargs \<Rightarrow> error + pyval"
where
  "two_dimension_surface env f num_sample_points ax kwargs =
     (if \<not> matplotlib_importable env then Inl matplotlib_missing
      else
     (case two_dimension_triangle_Z env f num_sample_points of
        Inl e \<Rightarrow> Inl e
      | Inr (tri, Z) \<Rightarrow>
          (case pop kwargs ''cmap'' (KStr ''coolwarm'') of
             (cmap, kw) \<Rightarrow> Inr (Figure (new_axes ax @ [Trisurf tri Z cmap kw])))))"

definition two_dimension_contour ::
  "env \<Rightarrow> fe_function \<Rightarrow> int \<Rightarrow> axes option \<Rightarrow> kwargs \<Rightarrow> error + pyval"
where
  "two_dimension_contour env f num_sample_points ax kwargs =
     (if \<not> matplotlib_importable env then Inl matplotlib_missing
      else
     (case two_dimension_triangle_Z env f num_sample_points of
        Inl e \<Rightarrow> Inl e
      | Inr (tri, Z) \<Rightarrow> Inr (Figure (new_axes ax @ [Tricontour tri Z kwargs]))))"

text \<open>The body of \<^verbatim>\<open>plot\<close> for an argument that is a \<^verbatim>\<open>Function\<close>.\<close>

definition plot_function ::
  "env \<Rightarrow> fe_function \<Rightarrow> int \<Rightarrow> axes option \<Rightarrow> kwargs \<Rightarrow> error + pyval"
where
  "plot_function env f num_sample_points ax kwargs =
     (if \<not> matplotlib_importable env then Inl matplotlib_missing
      else if geometric_dimension (mesh_of f) = topological_dimension (mesh_of f) \<and>
              topological_dimension (mesh_of f) = 1 then
        (if degree f < 4 then bezier_plot env f ax kwargs
         else
           (case pop kwargs ''bezier'' (KBool False) of
              (bezier, kw) \<Rightarrow>
                (let n = (if truthy bezier then bezier_sample_count num_sample_points
                          else num_sample_points)
                 in case calculate_one_dim_points f n None of
                      Inl e \<Rightarrow> Inl e
                    | Inr points \<Rightarrow>
                        if truthy bezier then
                          interp_bezier env points (num_cells (mesh_of f)) ax kw
                        else
                          (case np_row points 0 of
                             Inl e \<Rightarrow> Inl e
                           | Inr p0 \<Rightarrow>
                          (case np_row points 1 of
                             Inl e \<Rightarrow> Inl e
                           | Inr p1 \<Rightarrow> Inr (Figure (new_axes ax @ [Line2D p0 p1 kw])))))))
      else if geometric_dimension (mesh_of f) = topological_dimension (mesh_of f) \<and>
              topological_dimension (mesh_of f) = 2 then
        (case pop kwargs ''contour'' (KBool False) of
           (is_contour, kw) \<Rightarrow>
             if truthy is_contour then two_dimension_contour env f num_sample_points ax kw
             else two_dimension_surface env f num_sample_points ax kw)
      else Inl unsupported_functionality)"

text \<open>
  The argument of \<^verbatim>\<open>plot\<close> is a function or a list; \<^verbatim>\<open>plot\<close> passes a list to
  \<^verbatim>\<open>_plot_mult\<close>, which draws its first element with \<^verbatim>\<open>plot\<close> (\<^verbatim>\<open>update(0)\<close>) and adds
  the slider and the button. The callbacks of the widgets run in the event loop of the
  plotting library and are not part of the call.
\<close>

datatype plot_arg = Fn fe_function | Fns "plot_arg list"

definition artists_of :: "pyval \<Rightarrow> artist list" where
  "artists_of v = (case v of PyNone \<Rightarrow> [] | Figure a \<Rightarrow> a)"

fun plot :: "env \<Rightarrow> plot_arg \<Rightarrow> int \<Rightarrow> axes option \<Rightarrow> kwargs \<Rightarrow> error + pyval"
  and plot_mult :: "env \<Rightarrow> plot_arg list \<Rightarrow> int \<Rightarrow> kwargs \<Rightarrow> error + pyval"
where
  "plot env (Fn f) num_sample_points ax kwargs =
     plot_function env f num_sample_points ax kwargs"
| "plot env (Fns functions) num_sample_points ax kwargs =
     plot_mult env functions num_sample_points kwargs"
| "plot_mult env [] num_points kwargs =
     (if \<not> matplotlib_importable env then Inl matplotlib_missing else Inr PyNone)"
| "plot_mult env (f # functions) num_points kwargs =
     (if \<not> matplotlib_importable env then Inl matplotlib_missing
      else case plot env f num_points (Some []) kwargs of
             Inl e \<Rightarrow> Inl e
           | Inr drawn \<Rightarrow>
               Inr (Figure (artists_of drawn @ [Slider (length (f # functions)), Button])))"

text \<open>\<^verbatim>\<open>functions[index]\<close> for a Python integer: a negative index counts from the end.\<close>

definition py_index :: "'a list \<Rightarrow> int \<Rightarrow> error + 'a" where
  "py_index xs i =
     (if 0 \<le> i \<and> i < int (length xs) then Inr (xs ! nat i)
      else if i < 0 \<and> - int (length xs) \<le> i then Inr (xs ! nat (int (length xs) + i))
      else Inl IndexError)"

text \<open>
  \<^verbatim>\<open>interactive_multiple_plot\<close> hands \<^verbatim>\<open>display_plot\<close> and a slider from \<open>0\<close> to
  \<open>len(functions) - 1\<close>, starting at \<open>0\<close>, to \<^verbatim>\<open>interact\<close>, and has no \<^verbatim>\<open>return\<close>
  statement.
\<close>

definition interactive_multiple_plot ::
  "env \<Rightarrow> plot_arg list \<Rightarrow> int \<Rightarrow> kwargs \<Rightarrow> error + pyval"
where
  "interactive_multiple_plot env functions num_sample_points kwargs =
     (if \<not> ipywidgets_importable env then Inl not_in_notebook
      else
        (let display_plot = (\<lambda>index.
               case py_index functions index of
                 Inl e \<Rightarrow> Inl e
               | Inr f \<Rightarrow> plot env f num_sample_points None kwargs)
         in case interact env display_plot 0 (int (length functions) - 1) 0 of
              Some e \<Rightarrow> Inl e
            | None \<Rightarrow> Inr PyNone))"

subsection \<open>Example objects\<close>

text \<open>
  Lagrange elements on the reference interval, with the nodes in the order of the
  finite-element library (the two end points first), and on the reference triangle and
  tetrahedron of degree one.
\<close>

definition lagrange_basis :: "rat list \<Rightarrow> (rat list \<Rightarrow> rat) list" where
  "lagrange_basis nodes =
     map (\<lambda>j. \<lambda>x. prod_list (map (\<lambda>m. (hd x - nodes ! m) / (nodes ! j - nodes ! m))
                                (filter (\<lambda>m. m \<noteq> j) [0..<length nodes])))
         [0..<length nodes]"

definition lagrange_element :: "rat list \<Rightarrow> fiat_element" where
  "lagrange_element nodes =
     \<lparr>ref_dim = 1, basis_funs = lagrange_basis nodes, dual_points = map (\<lambda>x. [x]) nodes\<rparr>"

definition p1_triangle :: fiat_element where
  "p1_triangle =
     \<lparr>ref_dim = 2,
      basis_funs = [\<lambda>p. 1 - p ! 0 - p ! 1, \<lambda>p. p ! 0, \<lambda>p. p ! 1],
      dual_points = [[0, 0], [1, 0], [0, 1]]\<rparr>"

definition p1_tetrahedron :: fiat_element where
  "p1_tetrahedron =
     \<lparr>ref_dim = 3,
      basis_funs = [\<lambda>p. 1 - p ! 0 - p ! 1 - p ! 2, \<lambda>p. p ! 0, \<lambda>p. p ! 1, \<lambda>p. p ! 2],
      dual_points = [[0, 0, 0], [1, 0, 0], [0, 1, 0], [0, 0, 1]]\<rparr>"

text \<open>
  The unit interval as a mesh of one cell, and as a mesh of the two cells
  \<open>[1/2, 1]\<close> and \<open>[0, 1/2]\<close>, in this order.
\<close>

definition unit_interval :: mesh where
  "unit_interval =
     \<lparr>ufl_cell = Interval, geometric_dimension = 1, topological_dimension = 1, num_cells = 1,
      coordinates =
        \<lparr>degree = 1, element = lagrange_element [0, 1],
         cell_node_list = \<lparr>shape = [1, 2], flat = [0, 1]\<rparr>,
         data_ro = \<lparr>shape = [2], flat = [0, 1]\<rparr>, ufl_shape = [1]\<rparr>\<rparr>"

definition two_intervals :: mesh where
  "two_intervals =
     \<lparr>ufl_cell = Interval, geometric_dimension = 1, topological_dimension = 1, num_cells = 2,
      coordinates =
        \<lparr>degree = 1, element = lagrange_element [0, 1],
         cell_node_list = \<lparr>shape = [2, 2], flat = [1, 2, 0, 1]\<rparr>,
         data_ro = \<lparr>shape = [3], flat = [0, 1 / 2, 1]\<rparr>, ufl_shape = [1]\<rparr>\<rparr>"

text \<open>A piecewise linear function on the two cells, with the values 5, 7 and 11 at the nodes.\<close>

definition hat :: fe_function where
  "hat =
     \<lparr>degree = 1, element = lagrange_element [0, 1],
      cell_node_list = \<lparr>shape = [2, 2], flat = [1, 2, 0, 1]\<rparr>,
      data_ro = \<lparr>shape = [3], flat = [5, 7, 11]\<rparr>, ufl_shape = [], mesh_of = two_intervals\<rparr>"

text \<open>
  The function \<open>x\<^sup>4\<close> on the one-cell mesh, of degree four, and the first coordinate
  interpolated onto the discontinuous space of degree four of that mesh.
\<close>

definition quartic :: fe_function where
  "quartic =
     \<lparr>degree = 4, element = lagrange_element [0, 1, 1 / 4, 1 / 2, 3 / 4],
      cell_node_list = \<lparr>shape = [1, 5], flat = [0, 1, 2, 3, 4]\<rparr>,
      data_ro = \<lparr>shape = [5], flat = [0, 1, 1 / 256, 1 / 16, 81 / 256]\<rparr>,
      ufl_shape = [], mesh_of = unit_interval\<rparr>"

definition quartic_x :: fe_function where
  "quartic_x = quartic\<lparr>data_ro := \<lparr>shape = [5], flat = [0, 1, 1 / 4, 1 / 2, 3 / 4]\<rparr>\<rparr>"

text \<open>The matrix \<open>M\<close> of the Bezier Reconstructor for \<open>quartic\<close>, and its inverse.\<close>

definition quartic_matrix :: "rat ndarray" where
  "quartic_matrix =
     \<lparr>shape = [5, 5],
      flat = [1, 0, 81 / 256, 1 / 16, 1 / 256,
              0, 0, 27 / 64, 1 / 4, 3 / 64,
              0, 0, 27 / 128, 3 / 8, 27 / 128,
              0, 0, 3 / 64, 1 / 4, 27 / 64,
              0, 1, 1 / 256, 1 / 16, 81 / 256]\<rparr>"

definition quartic_inverse :: "rat ndarray" where
  "quartic_inverse =
     \<lparr>shape = [5, 5],
      flat = [1, - (13 / 12), 13 / 18, - (1 / 4), 0,
              0, - (1 / 4), 13 / 18, - (13 / 12), 1,
              0, 4, - (32 / 9), 4 / 3, 0,
              0, - 3, 20 / 3, - 3, 0,
              0, 4 / 3, - (32 / 9), 4, 0]\<rparr>"

text \<open>
  The unit square as a mesh of the two triangles with the vertices 0, 1, 2 and 1, 3, 2,
  and the function \<open>x + 2y\<close> of degree one on it.
\<close>

definition unit_square :: mesh where
  "unit_square =
     \<lparr>ufl_cell = Triangle, geometric_dimension = 2, topological_dimension = 2, num_cells = 2,
      coordinates =
        \<lparr>degree = 1, element = p1_triangle,
         cell_node_list = \<lparr>shape = [2, 3], flat = [0, 1, 2, 1, 3, 2]\<rparr>,
         data_ro = \<lparr>shape = [4, 2], flat = [0, 0, 1, 0, 0, 1, 1, 1]\<rparr>, ufl_shape = [2]\<rparr>\<rparr>"

definition plane :: fe_function where
  "plane =
     \<lparr>degree = 1, element = p1_triangle,
      cell_node_list = \<lparr>shape = [2, 3], flat = [0, 1, 2, 1, 3, 2]\<rparr>,
      data_ro = \<lparr>shape = [4], flat = [0, 1, 2, 3]\<rparr>, ufl_shape = [], mesh_of = unit_square\<rparr>"

text \<open>The reference tetrahedron as a mesh of one cell, and the function \<open>z\<close> on it.\<close>

definition unit_tetrahedron :: mesh where
  "unit_tetrahedron =
     \<lparr>ufl_cell = Tetrahedron, geometric_dimension = 3, topological_dimension = 3, num_cells = 1,
      coordinates =
        \<lparr>degree = 1, element = p1_tetrahedron,
         cell_node_list = \<lparr>shape = [1, 4], flat = [0, 1, 2, 3]\<rparr>,
         data_ro = \<lparr>shape = [4, 3], flat = [0, 0, 0, 1, 0, 0, 0, 1, 0, 0, 0, 1]\<rparr>,
         ufl_shape = [3]\<rparr>\<rparr>"

definition height :: fe_function where
  "height =
     \<lparr>degree = 1, element = p1_tetrahedron,
      cell_node_list = \<lparr>shape = [1, 4], flat = [0, 1, 2, 3]\<rparr>,
      data_ro = \<lparr>shape = [4], flat = [0, 0, 0, 1]\<rparr>, ufl_shape = [],
      mesh_of = unit_tetrahedron\<rparr>"

text \<open>
  The unrefined triangulation of the reference triangle, and the triangulation of the two
  cells of the unit square built from it.
\<close>

definition reference_triangle :: triangulation where
  "reference_triangle =
     \<lparr>tri_x = \<lparr>shape = [3], flat = [0, 0, 1]\<rparr>, tri_y = \<lparr>shape = [3], flat = [0, 1, 0]\<rparr>,
      triangles = \<lparr>shape = [1, 3], flat = [0, 1, 2]\<rparr>\<rparr>"

definition plane_triangulation :: triangulation where
  "plane_triangulation =
     \<lparr>tri_x = \<lparr>shape = [6], flat = [0, 0, 1, 1, 0, 1]\<rparr>,
      tri_y = \<lparr>shape = [6], flat = [0, 1, 0, 0, 1, 1]\<rparr>,
      triangles = \<lparr>shape = [2, 3], flat = [0, 1, 2, 3, 4, 5]\<rparr>\<rparr>"

text \<open>
  An environment with both libraries present. Its interpolation is the one of the one-cell
  mesh above (a function is kept, the first coordinate becomes \<open>quartic_x\<close>); its
  refinement returns the unrefined triangulation of the reference cell, which is the
  refinement of depth 0; its \<^verbatim>\<open>interact\<close> calls the callback once, at the start value.
\<close>

definition example_env :: env where
  "example_env =
     \<lparr>matplotlib_importable = True, ipywidgets_importable = True,
      dg_interpolate = (\<lambda>m deg expr. case expr of Expr_function f \<Rightarrow> f | Expr_x0 \<Rightarrow> quartic_x),
      refine_triangulation = (\<lambda>x y depth.
         \<lparr>tri_x = \<lparr>shape = [length x], flat = x\<rparr>, tri_y = \<lparr>shape = [length y], flat = y\<rparr>,
          triangles = (if length x = 3 then \<lparr>shape = [1, 3], flat = [0, 1, 2]\<rparr>
                       else \<lparr>shape = [2, 3], flat = [0, 1, 2, 1, 3, 2]\<rparr>)\<rparr>),
      interact = (\<lambda>display lo hi v. case display v of Inl e \<Rightarrow> Some e | Inr r \<Rightarrow> None)\<rparr>"

section \<open>Properties\<close>

subsection \<open>Lists of blocks\<close>

lemma length_concat_map_const:
  "(\<And>i. i < m \<Longrightarrow> length (f i) = k) \<Longrightarrow> length (concat (map f [0..<m])) = m * k"
  by (induction m) auto

lemma concat_map_nth:
  "(\<And>i. i < m \<Longrightarrow> length (f i) = k) \<Longrightarrow> i < m \<Longrightarrow> j < k \<Longrightarrow>
     concat (map f [0..<m]) ! (i * k + j) = f i ! j"
proof (induction m)
  case 0
  then show ?case by simp
next
  case (Suc m)
  have len: "length (concat (map f [0..<m])) = m * k"
    using Suc.prems(1) by (intro length_concat_map_const) simp
  show ?case
  proof (cases "i < m")
    case True
    then have "Suc i * k \<le> m * k" by (intro mult_le_mono1) simp
    then have "i * k + j < m * k"
      using Suc.prems(3) by simp
    then show ?thesis using Suc True len by (simp add: nth_append)
  next
    case False
    then have "i = m" using Suc.prems(2) by simp
    then show ?thesis using len Suc.prems by (simp add: nth_append)
  qed
qed

subsection \<open>The sample count of the Bezier option\<close>








subsection \<open>Ranges of numerals\<close>

lemma upt_0_numeral: "[0..<numeral n] = 0 # [Suc 0..<numeral n]"
  by (simp add: upt_rec)

lemma upt_1_numeral:
  "[Suc 0..<numeral n] = (if Suc 0 < numeral n then Suc 0 # [2..<numeral n] else [])"
  by (metis One_nat_def Suc_1 upt_rec)

lemma upt_numeral_numeral:
  "[numeral m..<numeral n] =
     (if (numeral m :: nat) < numeral n then numeral m # [numeral (m + Num.One)..<numeral n]
      else [])"
  by (metis Suc_numeral add_One upt_rec)

lemmas upt_numeral = upt_0_numeral upt_1_numeral upt_numeral_numeral

subsection \<open>The exceptions of the array operations\<close>

lemma np_reshape_error: "np_reshape a dims = Inl e \<Longrightarrow> e = ValueError"
  by (auto simp: np_reshape_def Let_def split: if_splits)

lemma np_dstack_error: "np_dstack a b = Inl e \<Longrightarrow> e = ValueError"
  by (auto simp: np_dstack_def split: list.splits if_splits)

lemma np_take_error: "np_take a idx = Inl e \<Longrightarrow> e = IndexError"
  by (auto simp: np_take_def split: list.splits if_splits)

lemma np_dot_error: "np_dot a b = Inl e \<Longrightarrow> e = ValueError"
  by (auto simp: np_dot_def Let_def split: if_splits)

lemma np_linalg_inv_error: "np_linalg_inv M = Inl e \<Longrightarrow> e = LinAlgError"
  by (auto simp: np_linalg_inv_def Let_def split: list.splits if_splits option.splits)

lemma collect_error: "collect xs = Inl e \<Longrightarrow> Inl e \<in> set xs"
  by (induction xs) (auto split: sum.splits)

lemma node_coordinate_error: "node_coordinate el j = Inl e \<Longrightarrow> e = IndexError"
  by (auto simp: node_coordinate_def split: if_splits list.splits)

subsection \<open>Blocks of a list\<close>

lemma block_length: "(i + 1) * r \<le> length xs \<Longrightarrow> length (block r xs i) = r"
  by (simp add: block_def)

lemma block_nth: "j < r \<Longrightarrow> i * r + j < length xs \<Longrightarrow> block r xs i ! j = xs ! (i * r + j)"
  by (simp add: block_def)

lemma concat_blocks: "length xs = c * r \<Longrightarrow> concat (map (block r xs) [0..<c]) = xs"
proof (induction c arbitrary: xs)
  case 0
  then show ?case by simp
next
  case (Suc c)
  have len: "length (take (c * r) xs) = c * r" using Suc.prems by simp
  have same: "block r (take (c * r) xs) i = block r xs i" if "i < c" for i
  proof -
    from that have "Suc i * r \<le> c * r" by (intro mult_le_mono1) simp
    then have "r \<le> c * r - i * r" by simp
    then show ?thesis by (simp add: block_def drop_take min_def)
  qed
  have "concat (map (block r xs) [0..<c]) = concat (map (block r (take (c * r) xs)) [0..<c])"
    using same by (intro arg_cong [where f = concat] map_cong) simp_all
  also have "\<dots> = take (c * r) xs" using Suc.IH [OF len] .
  finally have "concat (map (block r xs) [0..<Suc c]) = take (c * r) xs @ block r xs c" by simp
  also have "\<dots> = xs" using Suc.prems by (simp add: block_def)
  finally show ?case .
qed

lemma list2: "length xs = 2 \<Longrightarrow> [xs ! 0, xs ! 1] = xs"
  by (auto simp: length_Suc_conv numeral_2_eq_2)

lemma length_concat3:
  "length (concat (map (\<lambda>i. concat (map (\<lambda>l. map (g i l) [0..<c]) [0..<b])) [0..<a]))
     = a * (b * c)"
proof -
  have inner: "length (concat (map (\<lambda>l. map (g i l) [0..<c]) [0..<b])) = b * c" for i
    by (rule length_concat_map_const) simp
  show ?thesis
    by (rule length_concat_map_const) (rule inner)
qed

lemma length_filter_index:
  "length (filter (\<lambda>i. P (xs ! i)) [0..<length xs]) = length (filter P xs)"
proof -
  have "map (\<lambda>i. xs ! i) (filter (\<lambda>i. P (xs ! i)) [0..<length xs])
      = filter P (map (\<lambda>i. xs ! i) [0..<length xs])"
    by (simp add: filter_map comp_def)
  then have "length (filter (\<lambda>i. P (xs ! i)) [0..<length xs])
      = length (filter P (map (\<lambda>i. xs ! i) [0..<length xs]))"
    by (metis length_map)
  then show ?thesis by (simp add: map_nth)
qed

subsection \<open>The Sampling Grid Generator\<close>

















lemma reshape_flat: "np_reshape a [-1] = Inr \<lparr>shape = [np_size a], flat = flat a\<rparr>"
  by (simp add: np_reshape_def)

lemma reshape_pairs:
  "even (np_size a) \<Longrightarrow> np_reshape a [-1, 2] = Inr \<lparr>shape = [np_size a div 2, 2], flat = flat a\<rparr>"
  by (simp add: np_reshape_def)





lemma points_rows_2d: "shape p = [n, r] \<Longrightarrow> points_rows p = map (block r (flat p)) [0..<n]"
  by (simp add: points_rows_def)



















subsection \<open>The Field Evaluator\<close>

lemma einsum_shape:
  assumes "einsum_ijk_jl_ilk d el = Inr v"
  shows "\<exists>ni nj nk nl. shape d = [ni, nj, nk] \<and> shape el = [nj, nl] \<and>
           shape v = [ni, nl, nk] \<and> wf_array v"
proof -
  from assms obtain ni nj nk nl where s: "shape d = [ni, nj, nk]" "shape el = [nj, nl]"
    by (auto simp: einsum_ijk_jl_ilk_def split: list.splits if_splits)
  with assms have v: "shape v = [ni, nl, nk]" "length (flat v) = ni * (nl * nk)"
    by (auto simp: einsum_ijk_jl_ilk_def length_concat3)
  then have "wf_array v" by (simp add: wf_array_def)
  with s v show ?thesis by blast
qed

lemma selected_cell_nodes_shape:
  assumes "selected_cell_nodes f cell_mask = Inr cnl" "shape (cell_node_list f) = [c, m]"
  shows "shape cnl = [n_selected c m cell_mask, m]"
proof (cases cell_mask)
  case None
  with assms show ?thesis by (simp add: selected_cell_nodes_def n_selected_def)
next
  case (Some msk)
  with assms have len: "length msk = c"
    and cnl: "shape cnl = [length (filter (\<lambda>i. \<not> (msk ! i \<and> 0 < m)) [0..<c]), m]"
    by (auto simp: selected_cell_nodes_def compress_rows_def Let_def split: if_splits)
  show ?thesis
  proof (cases "0 < m")
    case True
    then have "length (filter (\<lambda>i. \<not> (msk ! i \<and> 0 < m)) [0..<c]) = length (filter Not msk)"
      using length_filter_index [of Not msk] len by simp
    with cnl True Some show ?thesis by (simp add: n_selected_def)
  next
    case False
    with cnl Some show ?thesis by (simp add: n_selected_def)
  qed
qed

lemma calculate_values_ufl_shape_1:
  "calculate_values (f\<lparr>ufl_shape := []\<rparr>) points dimension cell_mask =
   calculate_values (f\<lparr>ufl_shape := [1]\<rparr>) points dimension cell_mask"
  by (simp add: calculate_values_def selected_cell_nodes_def Let_def
      cong: option.case_cong sum.case_cong)

lemma calculate_values_shape:
  assumes v: "calculate_values f points dimension cell_mask = Inr v"
    and cnl: "shape (cell_node_list f) = [c, m]"
    and one: "ufl_shape f = [] \<or> ufl_shape f = [1]"
  shows "shape v = [n_selected c m cell_mask, length (points_rows points), 1] \<and> wf_array v"
proof -
  from v obtain key elem cnl' data where
    k: "tabulate_keys dimension = Some key"
    and el: "map_of (tabulate0 (element f) points) key = Some elem"
    and sel: "selected_cell_nodes f cell_mask = Inr cnl'"
    and d: "np_take (data_ro f) cnl' = Inr data"
    and e: "einsum_ijk_jl_ilk \<lparr>shape = shape data @ [1], flat = flat data\<rparr> elem = Inr v"
    using one by (auto simp: calculate_values_def Let_def split: option.splits sum.splits)
  from el have elem: "shape elem = [length (basis_funs (element f)), length (points_rows points)]"
    by (auto simp: tabulate0_def split: if_splits)
  from einsum_shape [OF e] elem obtain ni nj nk where
    s: "shape data @ [1] = [ni, nj, nk]" "shape v = [ni, length (points_rows points), nk]"
      "wf_array v"
    by auto
  from s(1) have nk: "nk = 1" and sd: "shape data = [ni, nj]"
    by (auto simp: append_eq_Cons_conv)
  from selected_cell_nodes_shape [OF sel cnl]
  have sc: "shape cnl' = [n_selected c m cell_mask, m]" .
  from d sc sd have "ni = n_selected c m cell_mask"
    by (auto simp: np_take_def split: list.splits if_splits)
  with s nk show ?thesis by simp
qed

lemma hat_facts:
  "degree hat = 1" "node_coordinate (element hat) 0 = Inr 0" "node_coordinate (element hat) 1 = Inr 1"
  "shape (cell_node_list hat) = [2, 2]" "wf_array (cell_node_list hat)"
  "shape (data_ro hat) = [3]" "wf_array (data_ro hat)"
  "flat (cell_node_list hat) = [1, 2, 0, 1]" "flat (data_ro hat) = [5, 7, 11]"
  by (simp_all add: hat_def lagrange_element_def node_coordinate_def wf_array_def)

lemma hat_values:
  "calculate_values (hat\<lparr>ufl_shape := [1]\<rparr>) \<lparr>shape = [3, 1], flat = [0, 1 / 2, 1]\<rparr> 1 None =
     Inr \<lparr>shape = [2, 3, 1], flat = [7, 9, 11, 5, 6, 7]\<rparr>"
  by (simp add: calculate_values_def tabulate_keys_def tabulate0_def points_rows_def
      selected_cell_nodes_def hat_def lagrange_element_def lagrange_basis_def np_take_def
      einsum_ijk_jl_ilk_def block_def Let_def upt_numeral upt_rec [of 0 "Suc (Suc 0)"]
      upt_rec [of "Suc 0" "Suc (Suc 0)"])

text \<open>
  Claim C2. For every point set, dimension, mask and coefficient data, the Field
  Evaluator returns the same (the same array, or the same exception) for a function of
  shape \<open>()\<close> and for the function with the same data and shape \<open>(1,)\<close>. When it returns
  an array, for a cell-node list of \<open>c\<close> cells with \<open>m\<close> nodes, the array has the shape
  (evaluated cells, points, 1) and as many elements.
\<close>

theorem calculate_values_scalar_or_one_component:
  "calculate_values (f\<lparr>ufl_shape := []\<rparr>) points dimension cell_mask =
   calculate_values (f\<lparr>ufl_shape := [1]\<rparr>) points dimension cell_mask \<and>
   (\<forall>v. shape (cell_node_list f) = [c, m] \<and>
        calculate_values (f\<lparr>ufl_shape := [1]\<rparr>) points dimension cell_mask = Inr v \<longrightarrow>
        shape v = [n_selected c m cell_mask, length (points_rows points), 1] \<and> wf_array v)"
proof (intro conjI allI impI)
  show "calculate_values (f\<lparr>ufl_shape := []\<rparr>) points dimension cell_mask =
        calculate_values (f\<lparr>ufl_shape := [1]\<rparr>) points dimension cell_mask"
    by (rule calculate_values_ufl_shape_1)
next
  fix v
  assume a: "shape (cell_node_list f) = [c, m] \<and>
    calculate_values (f\<lparr>ufl_shape := [1]\<rparr>) points dimension cell_mask = Inr v"
  from a have "calculate_values (f\<lparr>ufl_shape := [1]\<rparr>) points dimension cell_mask = Inr v"
    and "shape (cell_node_list (f\<lparr>ufl_shape := [1]\<rparr>)) = [c, m]"
    and "ufl_shape (f\<lparr>ufl_shape := [1]\<rparr>) = [] \<or> ufl_shape (f\<lparr>ufl_shape := [1]\<rparr>) = [1]"
    by simp_all
  then have "shape v = [n_selected c m cell_mask, length (points_rows points), 1] \<and> wf_array v"
    by (rule calculate_values_shape)
  then show "shape v = [n_selected c m cell_mask, length (points_rows points), 1]"
    and "wf_array v" by simp_all
qed

theorem calculate_values_scalar_or_one_component_witness:
  "shape (cell_node_list hat) = [2, 2] \<and>
   calculate_values (hat\<lparr>ufl_shape := []\<rparr>) \<lparr>shape = [3, 1], flat = [0, 1 / 2, 1]\<rparr> 1 None =
     Inr \<lparr>shape = [2, 3, 1], flat = [7, 9, 11, 5, 6, 7]\<rparr> \<and>
   calculate_values (hat\<lparr>ufl_shape := [1]\<rparr>) \<lparr>shape = [3, 1], flat = [0, 1 / 2, 1]\<rparr> 1 None =
     Inr \<lparr>shape = [2, 3, 1], flat = [7, 9, 11, 5, 6, 7]\<rparr>"
proof -
  have "calculate_values (hat\<lparr>ufl_shape := []\<rparr>) \<lparr>shape = [3, 1], flat = [0, 1 / 2, 1]\<rparr> 1 None =
        calculate_values (hat\<lparr>ufl_shape := [1]\<rparr>) \<lparr>shape = [3, 1], flat = [0, 1 / 2, 1]\<rparr> 1 None"
    using calculate_values_scalar_or_one_component
      [of hat "\<lparr>shape = [3, 1], flat = [0, 1 / 2, 1]\<rparr>" 1 None 2 2]
    by (rule conjunct1)
  then show ?thesis by (simp only: hat_values hat_facts simp_thms)
qed

subsection \<open>One-dimensional point assembly\<close>

lemma argsort_perm: "mset (np_argsort xs) = mset [0..<length xs]"
  by (simp add: np_argsort_def)

lemma argsort_length: "length (np_argsort xs) = length xs"
  by (simp add: np_argsort_def)

lemma argsort_set: "set (np_argsort xs) = {0..<length xs}"
  by (simp add: np_argsort_def)

lemma argsort_sorted: "sorted (map (\<lambda>i. xs ! i) (np_argsort xs))"
  by (simp add: np_argsort_def)

lemma take1_argsort_x: "np_take1 xs (np_argsort xs) = Inr (map (\<lambda>i. xs ! i) (np_argsort xs))"
  by (simp add: np_take1_def argsort_set)

lemma take1_argsort_y:
  "np_take1 ys (np_argsort xs) =
     (if length xs \<le> length ys then Inr (map (\<lambda>i. ys ! i) (np_argsort xs)) else Inl IndexError)"
proof (cases "length xs \<le> length ys")
  case True
  then show ?thesis by (auto simp: np_take1_def argsort_set)
next
  case False
  then have "length ys \<in> set (np_argsort xs)" by (simp add: argsort_set)
  then have "\<exists>i \<in> set (np_argsort xs). length ys \<le> i" by blast
  then show ?thesis using False by (simp add: np_take1_def)
qed

lemma zip_nth_map:
  assumes "length xs \<le> length ys"
  shows "zip xs ys = map (\<lambda>i. (xs ! i, ys ! i)) [0..<length xs]"
  using assms by (intro nth_equalityI) simp_all

lemma sorted_pairs_perm:
  assumes "length xs \<le> length ys"
  shows "mset (zip (map (\<lambda>i. xs ! i) (np_argsort xs)) (map (\<lambda>i. ys ! i) (np_argsort xs)))
       = mset (zip xs ys)"
proof -
  have "zip (map (\<lambda>i. xs ! i) (np_argsort xs)) (map (\<lambda>i. ys ! i) (np_argsort xs))
      = map (\<lambda>i. (xs ! i, ys ! i)) (np_argsort xs)"
    by (simp add: zip_map_map zip_same_conv_map)
  then have "mset (zip (map (\<lambda>i. xs ! i) (np_argsort xs)) (map (\<lambda>i. ys ! i) (np_argsort xs)))
      = image_mset (\<lambda>i. (xs ! i, ys ! i)) (mset (np_argsort xs))"
    by simp
  also have "\<dots> = mset (map (\<lambda>i. (xs ! i, ys ! i)) [0..<length xs])"
    by (simp add: argsort_perm)
  also have "\<dots> = mset (zip xs ys)" using zip_nth_map [OF assms] by simp
  finally show ?thesis .
qed


lemma calculate_one_dim_points_eq:
  assumes "calculate_points f n 1 cell_mask = Inr (x_vals, y_vals)"
  shows "calculate_one_dim_points f n cell_mask =
     (if np_size x_vals \<le> np_size y_vals then
        Inr \<lparr>shape = [2, np_size x_vals],
             flat = map (\<lambda>i. flat x_vals ! i) (np_argsort (flat x_vals)) @
                    map (\<lambda>i. flat y_vals ! i) (np_argsort (flat x_vals))\<rparr>
      else Inl IndexError)"
  using assms
  by (simp add: calculate_one_dim_points_def reshape_flat take1_argsort_x take1_argsort_y
      np_array2_def np_size_def argsort_length Let_def)

lemma calculate_points_sizes:
  assumes cp: "calculate_points f n dimension cell_mask = Inr (x_vals, y_vals)"
    and cf: "shape (cell_node_list f) = [c, m]"
    and cc: "shape (cell_node_list (coordinates (mesh_of f))) = [c, m']"
    and m: "0 < m" "0 < m'"
    and uf: "ufl_shape f = [] \<or> ufl_shape f = [1]"
    and uc: "ufl_shape (coordinates (mesh_of f)) = [] \<or> ufl_shape (coordinates (mesh_of f)) = [1]"
  shows "np_size x_vals = np_size y_vals"
proof -
  from cp obtain points where
    y: "calculate_values f points dimension cell_mask = Inr y_vals"
    and x: "calculate_values (coordinates (mesh_of f)) points dimension cell_mask = Inr x_vals"
    by (auto simp: calculate_points_def split: sum.splits)
  have ns: "n_selected c m cell_mask = n_selected c m' cell_mask"
    using m by (simp add: n_selected_def split: option.splits)
  from calculate_values_shape [OF y cf uf] calculate_values_shape [OF x cc uc] ns
  show ?thesis by (simp add: wf_array_def np_size_def)
qed

text \<open>
  Claim C5. Whenever the evaluator has returned the coordinates and the values of a 1D
  function, one-dimensional point assembly returns an array when there are at least as
  many values as coordinates (it raises \<^verbatim>\<open>IndexError\<close> otherwise), and every array it
  returns has two rows \<open>xs\<close> and \<open>ys\<close> of the length of the flattened coordinates, with
  \<open>xs\<close> sorted (non-decreasing) and the pairs \<open>(xs[i], ys[i])\<close> a permutation of the
  pairs of the flattened coordinates and values. Coordinates and values are equally many
  when the function and the coordinate field have one component and list nodes for the
  same cells.
\<close>

theorem calculate_one_dim_points_sorted_permutation:
  assumes "calculate_points f n 1 cell_mask = Inr (x_vals, y_vals)"
  shows "(np_size x_vals \<le> np_size y_vals \<longrightarrow>
            (\<exists>r. calculate_one_dim_points f n cell_mask = Inr r)) \<and>
         (\<forall>r. calculate_one_dim_points f n cell_mask = Inr r \<longrightarrow>
            (\<exists>xs ys. r = \<lparr>shape = [2, length xs], flat = xs @ ys\<rparr> \<and>
               length xs = np_size x_vals \<and> length ys = length xs \<and> sorted xs \<and>
               mset (zip xs ys) = mset (zip (flat x_vals) (flat y_vals)))) \<and>
         (shape (cell_node_list f) = [c, m] \<and>
          shape (cell_node_list (coordinates (mesh_of f))) = [c, m'] \<and> 0 < m \<and> 0 < m' \<and>
          (ufl_shape f = [] \<or> ufl_shape f = [1]) \<and>
          (ufl_shape (coordinates (mesh_of f)) = [] \<or>
           ufl_shape (coordinates (mesh_of f)) = [1]) \<longrightarrow>
          np_size x_vals = np_size y_vals)"
proof (intro conjI allI impI)
  assume "np_size x_vals \<le> np_size y_vals"
  then show "\<exists>r. calculate_one_dim_points f n cell_mask = Inr r"
    by (simp add: calculate_one_dim_points_eq [OF assms])
next
  fix r
  assume r: "calculate_one_dim_points f n cell_mask = Inr r"
  let ?xs = "map (\<lambda>i. flat x_vals ! i) (np_argsort (flat x_vals))"
  let ?ys = "map (\<lambda>i. flat y_vals ! i) (np_argsort (flat x_vals))"
  from r have le: "np_size x_vals \<le> np_size y_vals"
    and req: "r = \<lparr>shape = [2, np_size x_vals], flat = ?xs @ ?ys\<rparr>"
    by (simp_all add: calculate_one_dim_points_eq [OF assms] split: if_splits)
  have len: "length ?xs = np_size x_vals" "length ?ys = length ?xs"
    by (simp_all add: np_size_def argsort_length)
  have "sorted ?xs" by (rule argsort_sorted)
  moreover have "mset (zip ?xs ?ys) = mset (zip (flat x_vals) (flat y_vals))"
    using le by (intro sorted_pairs_perm) (simp add: np_size_def)
  ultimately show "\<exists>xs ys. r = \<lparr>shape = [2, length xs], flat = xs @ ys\<rparr> \<and>
               length xs = np_size x_vals \<and> length ys = length xs \<and> sorted xs \<and>
               mset (zip xs ys) = mset (zip (flat x_vals) (flat y_vals))"
    using req len by (intro exI [of _ ?xs] exI [of _ ?ys]) simp
next
  assume "shape (cell_node_list f) = [c, m] \<and>
          shape (cell_node_list (coordinates (mesh_of f))) = [c, m'] \<and> 0 < m \<and> 0 < m' \<and>
          (ufl_shape f = [] \<or> ufl_shape f = [1]) \<and>
          (ufl_shape (coordinates (mesh_of f)) = [] \<or>
           ufl_shape (coordinates (mesh_of f)) = [1])"
  then show "np_size x_vals = np_size y_vals"
    using calculate_points_sizes [OF assms] by blast
qed


lemma hat_sample: "sample_points Interval 3 = Inr \<lparr>shape = [3, 1], flat = [0, 1 / 2, 1]\<rparr>"
  by (simp add: sample_points_def np_linspace01_def np_reshape_def np_size_def linspace_point_def
      upt_numeral)

lemma hat_coordinates:
  "calculate_values (coordinates (mesh_of hat)) \<lparr>shape = [3, 1], flat = [0, 1 / 2, 1]\<rparr> 1 None =
     Inr \<lparr>shape = [2, 3, 1], flat = [1 / 2, 3 / 4, 1, 0, 1 / 4, 1 / 2]\<rparr>"
  by (simp add: calculate_values_def tabulate_keys_def tabulate0_def points_rows_def
      selected_cell_nodes_def hat_def two_intervals_def lagrange_element_def lagrange_basis_def
      np_take_def einsum_ijk_jl_ilk_def block_def Let_def upt_numeral
      upt_rec [of 0 "Suc (Suc 0)"] upt_rec [of "Suc 0" "Suc (Suc 0)"])

lemma hat_values0:
  "calculate_values hat \<lparr>shape = [3, 1], flat = [0, 1 / 2, 1]\<rparr> 1 None =
     Inr \<lparr>shape = [2, 3, 1], flat = [7, 9, 11, 5, 6, 7]\<rparr>"
  by (simp add: calculate_values_def tabulate_keys_def tabulate0_def points_rows_def
      selected_cell_nodes_def hat_def lagrange_element_def lagrange_basis_def np_take_def
      einsum_ijk_jl_ilk_def block_def Let_def upt_numeral upt_rec [of 0 "Suc (Suc 0)"]
      upt_rec [of "Suc 0" "Suc (Suc 0)"])

lemma hat_points:
  "calculate_points hat 3 1 None =
     Inr (\<lparr>shape = [2, 3, 1], flat = [1 / 2, 3 / 4, 1, 0, 1 / 4, 1 / 2]\<rparr>,
          \<lparr>shape = [2, 3, 1], flat = [7, 9, 11, 5, 6, 7]\<rparr>)"
proof -
  have c: "ufl_cell (mesh_of hat) = Interval" by (simp add: hat_def two_intervals_def)
  show ?thesis
    by (simp only: calculate_points_def c hat_sample hat_values0 hat_coordinates sum.case)
qed

theorem calculate_one_dim_points_sorted_permutation_witness:
  "calculate_points hat 3 1 None =
     Inr (\<lparr>shape = [2, 3, 1], flat = [1 / 2, 3 / 4, 1, 0, 1 / 4, 1 / 2]\<rparr>,
          \<lparr>shape = [2, 3, 1], flat = [7, 9, 11, 5, 6, 7]\<rparr>) \<and>
   (\<exists>xs ys. calculate_one_dim_points hat 3 None = Inr \<lparr>shape = [2, length xs], flat = xs @ ys\<rparr> \<and>
      length xs = 6 \<and> sorted xs \<and>
      mset (zip xs ys) = mset (zip [1 / 2, 3 / 4, 1, 0, 1 / 4, 1 / 2] [7, 9, 11, 5, 6, 7]))"
proof -
  let ?X = "\<lparr>shape = [2, 3, 1], flat = [1 / 2, 3 / 4, 1, 0, 1 / 4, 1 / 2 :: rat]\<rparr>"
  let ?Y = "\<lparr>shape = [2, 3, 1], flat = [7, 9, 11, 5, 6, 7 :: rat]\<rparr>"
  note th = calculate_one_dim_points_sorted_permutation [OF hat_points]
  have "np_size ?X \<le> np_size ?Y" by (simp add: np_size_def)
  with th obtain r where r: "calculate_one_dim_points hat 3 None = Inr r" by blast
  with th obtain xs ys where req: "r = \<lparr>shape = [2, length xs], flat = xs @ ys\<rparr>"
    and len: "length xs = np_size ?X" and srt: "sorted xs"
    and perm: "mset (zip xs ys) = mset (zip (flat ?X) (flat ?Y))"
    by blast
  from r req have 1: "calculate_one_dim_points hat 3 None = Inr \<lparr>shape = [2, length xs], flat = xs @ ys\<rparr>"
    by (simp only:)
  from len have 2: "length xs = 6" by (simp add: np_size_def)
  from perm have 3: "mset (zip xs ys) = mset (zip [1 / 2, 3 / 4, 1, 0, 1 / 4, 1 / 2] [7, 9, 11, 5, 6, 7])"
    by (simp only: ndarray.simps)
  from hat_points 1 2 srt 3 show ?thesis by blast
qed


subsection \<open>The Triangulation Builder\<close>

lemma calculate_values_shape_vector:
  assumes v: "calculate_values f points dimension cell_mask = Inr v"
    and cnl: "shape (cell_node_list f) = [c, m]"
    and vec: "ufl_shape f = d # rest" "d \<noteq> 1"
    and dat: "shape (data_ro f) = [n, k]"
  shows "shape v = [n_selected c m cell_mask, length (points_rows points), k] \<and> wf_array v"
proof -
  from v obtain key elem cnl' data where
    el: "map_of (tabulate0 (element f) points) key = Some elem"
    and sel: "selected_cell_nodes f cell_mask = Inr cnl'"
    and d: "np_take (data_ro f) cnl' = Inr data"
    and e: "einsum_ijk_jl_ilk data elem = Inr v"
    using vec by (auto simp: calculate_values_def Let_def split: option.splits sum.splits)
  from el have elem: "shape elem = [length (basis_funs (element f)), length (points_rows points)]"
    by (auto simp: tabulate0_def split: if_splits)
  from selected_cell_nodes_shape [OF sel cnl]
  have sc: "shape cnl' = [n_selected c m cell_mask, m]" .
  from d sc dat have sd: "shape data = [n_selected c m cell_mask, m, k]"
    by (auto simp: np_take_def split: list.splits if_splits)
  from einsum_shape [OF e] elem sd show ?thesis by auto
qed

lemma np_dstack_vectors:
  assumes "shape a = [n]" "shape b = [n]" "wf_array a" "wf_array b"
  shows "\<exists>d. np_dstack a b = Inr d \<and> shape d = [1, n, 2] \<and> np_size d = n * 2"
proof -
  have la: "length (flat a) = n" and lb: "length (flat b) = n"
    using assms by (simp_all add: wf_array_def)
  have "length (block 1 (flat a) i @ block 1 (flat b) i) = 2" if "i < n" for i
    using that la lb by (simp add: block_def)
  then have "length (concat (map (\<lambda>i. block 1 (flat a) i @ block 1 (flat b) i) [0..<n])) = n * 2"
    by (intro length_concat_map_const) simp
  then show ?thesis
    using assms(1,2) by (simp add: np_dstack_def atleast_3d_def np_size_def)
qed

lemma np_T_matrix:
  assumes "shape a = [m, n]"
  shows "shape (np_T a) = [n, m] \<and> length (flat (np_T a)) = n * m"
proof -
  have "length (concat (map (\<lambda>j. map (\<lambda>i. flat a ! (i * n + j)) [0..<m]) [0..<n])) = n * m"
    by (intro length_concat_map_const) simp
  then show ?thesis using assms by (simp add: np_T_def)
qed

lemma np_row_shape:
  assumes "np_row a i = Inr r" "shape a = [m, n]" "length (flat a) = m * n"
  shows "shape r = [n] \<and> np_size r = n"
proof -
  from assms have i: "i < m" and r: "r = \<lparr>shape = [n], flat = block n (flat a) i\<rparr>"
    by (auto simp: np_row_def split: if_splits)
  from i have "Suc i * n \<le> m * n" by (intro mult_le_mono1) simp
  then have "length (block n (flat a) i) = n"
    using assms(3) by (intro block_length) simp
  with r show ?thesis by (simp add: np_size_def)
qed

lemma offset_triangles_shape:
  assumes "offset_triangles tris c nv = Inr a" "shape tris = [t, 3]" "wf_array tris"
  shows "shape a = [c * t, 3] \<and>
         flat a = concat (map (\<lambda>i. map (\<lambda>v. v + i * nv) (flat tris)) [0..<c])"
proof -
  have len: "length (flat tris) = t * 3" using assms by (simp add: wf_array_def)
  have "length (concat (map (\<lambda>i. map (\<lambda>v. v + i * nv) (flat tris)) [0..<c])) = c * (t * 3)"
    using len by (intro length_concat_map_const) simp
  then show ?thesis
    using assms(1,2) by (auto simp: offset_triangles_def np_reshape_def np_size_def split: if_splits)
qed

lemma offset_triangles_nth:
  assumes "length xs = l" "i < c" "q < l"
  shows "concat (map (\<lambda>i. map (\<lambda>v. v + i * nv) xs) [0..<c]) ! (i * l + q) = xs ! q + i * nv"
proof -
  have "concat (map (\<lambda>i. map (\<lambda>v. v + i * nv) xs) [0..<c]) ! (i * l + q)
      = map (\<lambda>v. v + i * nv) xs ! q"
    using assms by (intro concat_map_nth) simp_all
  then show ?thesis using assms by simp
qed


lemma two_dimension_triangle_Z_steps:
  assumes "two_dimension_triangle_Z env f n = Inr (T, Z)"
    and "reference_vertices (ufl_cell (mesh_of f)) = Inr (x, y)"
    and "sub_triangles n = Inr depth"
    and "ref = refine_triangulation env x y depth"
  shows "\<exists>n_cells d ref_points z_vals coords_vals c2.
      shape0 (cell_node_list f) = Inr n_cells \<and>
      np_dstack (tri_x ref) (tri_y ref) = Inr d \<and>
      np_reshape d [-1, 2] = Inr ref_points \<and>
      calculate_values f ref_points 2 None = Inr z_vals \<and>
      calculate_values (coordinates (mesh_of f)) ref_points 2 None = Inr coords_vals \<and>
      np_reshape z_vals [-1] = Inr Z \<and>
      np_reshape coords_vals [-1, 2] = Inr c2 \<and>
      np_row (np_T c2) 0 = Inr (tri_x T) \<and> np_row (np_T c2) 1 = Inr (tri_y T) \<and>
      offset_triangles (triangles ref) n_cells (Max (set (flat (triangles ref))) + 1)
        = Inr (triangles T)"
  using assms
  by (auto simp: two_dimension_triangle_Z_def Let_def split: if_splits sum.splits)

lemma reshape_pairs':
  "even (np_size a) \<Longrightarrow> np_reshape a [-1, 2] = Inr b \<Longrightarrow>
     shape b = [np_size a div 2, 2] \<and> flat b = flat a"
  by (auto simp: reshape_pairs)

lemma disjoint_ranges:
  fixes V :: nat
  assumes "c * V \<le> a" "a < (c + 1) * V" "c' * V \<le> b" "b < (c' + 1) * V" "c \<noteq> c'"
  shows "a \<noteq> b"
proof (cases "c < c'")
  case True
  then have "(c + 1) * V \<le> c' * V" by (intro mult_le_mono1) simp
  with assms show ?thesis by linarith
next
  case False
  with assms(5) have "c' < c" by simp
  then have "(c' + 1) * V \<le> c * V" by (intro mult_le_mono1) simp
  with assms show ?thesis by linarith
qed

text \<open>
  Claim C4. Whenever the Triangulation Builder returns, for a refined reference
  triangulation \<open>ref\<close> of \<open>t\<close> triangles on \<open>V\<close> vertices (whose largest vertex index is
  \<open>V - 1\<close>, so that \<^verbatim>\<open>num_verts\<close> is \<open>V\<close>) and a mesh of \<open>C\<close> cells with a coordinate field
  of two components: the triangles of cell \<open>c\<close> are the triangles of \<open>ref\<close> with \<open>c * V\<close>
  added to every vertex index; they lie in the range from \<open>c * V\<close> to \<open>(c + 1) * V\<close>, so
  no index occurs in the triangles of two cells; and the triangulation has \<open>V * C\<close>
  vertices.
\<close>

theorem two_dimension_triangle_Z_offsets:
  assumes Z: "two_dimension_triangle_Z env f n = Inr (T, Z)"
    and rv: "reference_vertices (ufl_cell (mesh_of f)) = Inr (x, y)"
    and st: "sub_triangles n = Inr depth"
    and ref: "ref = refine_triangulation env x y depth"
    and tris: "shape (triangles ref) = [t, 3]" "wf_array (triangles ref)"
    and verts: "shape (tri_x ref) = [V]" "wf_array (tri_x ref)"
               "shape (tri_y ref) = [V]" "wf_array (tri_y ref)"
    and used: "Max (set (flat (triangles ref))) + 1 = V"
    and cnl: "shape (cell_node_list f) = [C, m]"
    and coords: "shape (cell_node_list (coordinates (mesh_of f))) = [C, m']"
                "shape (data_ro (coordinates (mesh_of f))) = [N, 2]"
                "ufl_shape (coordinates (mesh_of f)) = [2]"
  shows "shape (triangles T) = [C * t, 3] \<and>
         (\<forall>c < C. \<forall>q < t * 3.
            flat (triangles T) ! (c * (t * 3) + q) = flat (triangles ref) ! q + c * V \<and>
            c * V \<le> flat (triangles T) ! (c * (t * 3) + q) \<and>
            flat (triangles T) ! (c * (t * 3) + q) < (c + 1) * V) \<and>
         shape (tri_x T) = [V * C] \<and> np_size (tri_x T) = V * C \<and>
         shape (tri_y T) = [V * C] \<and> np_size (tri_y T) = V * C \<and>
         (\<forall>c < C. \<forall>c' < C. \<forall>q < t * 3. \<forall>q' < t * 3. c \<noteq> c' \<longrightarrow>
            flat (triangles T) ! (c * (t * 3) + q) \<noteq> flat (triangles T) ! (c' * (t * 3) + q'))"
proof -
  from two_dimension_triangle_Z_steps [OF Z rv st ref]
  obtain n_cells d ref_points z_vals coords_vals c2 where
    s0: "shape0 (cell_node_list f) = Inr n_cells"
    and ds: "np_dstack (tri_x ref) (tri_y ref) = Inr d"
    and rp: "np_reshape d [-1, 2] = Inr ref_points"
    and cv: "calculate_values (coordinates (mesh_of f)) ref_points 2 None = Inr coords_vals"
    and rc: "np_reshape coords_vals [-1, 2] = Inr c2"
    and rx: "np_row (np_T c2) 0 = Inr (tri_x T)" and ry: "np_row (np_T c2) 1 = Inr (tri_y T)"
    and ot: "offset_triangles (triangles ref) n_cells (Max (set (flat (triangles ref))) + 1)
               = Inr (triangles T)"
    by blast
  from s0 cnl have nc: "n_cells = C" by (simp add: shape0_def)
  \<comment> \<open>the reference points\<close>
  from np_dstack_vectors [OF verts(1,3,2,4)] ds have d: "shape d = [1, V, 2]" "np_size d = V * 2"
    by auto
  from reshape_pairs' [OF _ rp] d have "shape ref_points = [V, 2]" by simp
  then have P: "length (points_rows ref_points) = V" by (simp add: points_rows_def)
  \<comment> \<open>the vertices\<close>
  have "shape coords_vals = [n_selected C m' None, length (points_rows ref_points), 2] \<and>
        wf_array coords_vals"
  proof (rule calculate_values_shape_vector [OF cv coords(1) _ _ coords(2)])
    show "ufl_shape (coordinates (mesh_of f)) = 2 # []" by (simp add: coords(3))
    show "(2::nat) \<noteq> 1" by simp
  qed
  then have cvs: "np_size coords_vals = C * V * 2"
    using P by (simp add: n_selected_def wf_array_def np_size_def)
  from reshape_pairs' [OF _ rc] cvs have c2: "shape c2 = [C * V, 2]" "length (flat c2) = C * V * 2"
    by (simp_all add: np_size_def)
  from np_T_matrix [OF c2(1)]
  have t2: "shape (np_T c2) = [2, C * V]" "length (flat (np_T c2)) = 2 * (C * V)" by simp_all
  from np_row_shape [OF rx t2] np_row_shape [OF ry t2]
  have XY: "shape (tri_x T) = [V * C]" "np_size (tri_x T) = V * C"
           "shape (tri_y T) = [V * C]" "np_size (tri_y T) = V * C"
    by (simp_all add: mult.commute)
  \<comment> \<open>the triangles\<close>
  have len: "length (flat (triangles ref)) = t * 3" using tris by (simp add: wf_array_def)
  from ot nc used have "offset_triangles (triangles ref) C V = Inr (triangles T)"
    by (simp only:)
  from offset_triangles_shape [OF this tris]
  have ts: "shape (triangles T) = [C * t, 3]"
    and tf: "flat (triangles T) =
               concat (map (\<lambda>i. map (\<lambda>v. v + i * V) (flat (triangles ref))) [0..<C])"
    by simp_all
  have entry: "flat (triangles T) ! (c * (t * 3) + q) = flat (triangles ref) ! q + c * V"
    if "c < C" "q < t * 3" for c q
    unfolding tf using len that by (rule offset_triangles_nth)
  have local: "flat (triangles ref) ! q < V" if "q < t * 3" for q
  proof -
    from that len have "flat (triangles ref) ! q \<in> set (flat (triangles ref))" by simp
    then have "flat (triangles ref) ! q \<le> Max (set (flat (triangles ref)))" by simp
    with used show ?thesis by simp
  qed
  have range: "c * V \<le> flat (triangles T) ! (c * (t * 3) + q) \<and>
               flat (triangles T) ! (c * (t * 3) + q) < (c + 1) * V"
    if "c < C" "q < t * 3" for c q
    using entry [OF that] local [OF that(2)] by simp
  have disjoint: "flat (triangles T) ! (c * (t * 3) + q) \<noteq> flat (triangles T) ! (c' * (t * 3) + q')"
    if "c < C" "c' < C" "q < t * 3" "q' < t * 3" "c \<noteq> c'" for c c' q q'
  proof (rule disjoint_ranges [of c V _ c'])
    show "c * V \<le> flat (triangles T) ! (c * (t * 3) + q)"
      and "flat (triangles T) ! (c * (t * 3) + q) < (c + 1) * V"
      using range [OF that(1,3)] by simp_all
    show "c' * V \<le> flat (triangles T) ! (c' * (t * 3) + q')"
      and "flat (triangles T) ! (c' * (t * 3) + q') < (c' + 1) * V"
      using range [OF that(2,4)] by simp_all
    show "c \<noteq> c'" by (rule that(5))
  qed
  show ?thesis
  proof (intro conjI allI impI)
    show "shape (triangles T) = [C * t, 3]" by (rule ts)
    show "shape (tri_x T) = [V * C]" "np_size (tri_x T) = V * C"
      "shape (tri_y T) = [V * C]" "np_size (tri_y T) = V * C"
      by (rule XY)+
  next
    fix c q assume "c < C" "q < t * 3"
    then show "flat (triangles T) ! (c * (t * 3) + q) = flat (triangles ref) ! q + c * V"
      and "c * V \<le> flat (triangles T) ! (c * (t * 3) + q)"
      and "flat (triangles T) ! (c * (t * 3) + q) < (c + 1) * V"
      using entry range by simp_all
  next
    fix c c' q q'
    assume "c < C" "c' < C" "q < t * 3" "q' < t * 3" "c \<noteq> c'"
    then show "flat (triangles T) ! (c * (t * 3) + q) \<noteq> flat (triangles T) ! (c' * (t * 3) + q')"
      by (rule disjoint)
  qed
qed

lemma plane_reference:
  "reference_vertices (ufl_cell (mesh_of plane)) = Inr ([0, 0, 1], [0, 1, 0])"
  "sub_triangles 10 = Inr 0"
  "refine_triangulation example_env [0, 0, 1] [0, 1, 0] 0 = reference_triangle"
  by (simp_all add: reference_vertices_def plane_def unit_square_def sub_triangles_def
      ilog16.simps example_env_def reference_triangle_def)

lemma plane_ref_points:
  "np_dstack \<lparr>shape = [3], flat = [0, 0, 1]\<rparr> \<lparr>shape = [3], flat = [0, 1, 0 :: rat]\<rparr> =
     Inr \<lparr>shape = [1, 3, 2], flat = [0, 0, 0, 1, 1, 0]\<rparr>"
  "np_reshape \<lparr>shape = [1, 3, 2], flat = [0, 0, 0, 1, 1, 0 :: rat]\<rparr> [-1, 2] =
     Inr \<lparr>shape = [3, 2], flat = [0, 0, 0, 1, 1, 0]\<rparr>"
  by (simp_all add: np_dstack_def atleast_3d_def block_def np_reshape_def np_size_def upt_numeral)

lemma replicate_2: "replicate 2 x = [x, x]"
  by (simp add: numeral_2_eq_2)

lemma plane_values:
  "calculate_values plane \<lparr>shape = [3, 2], flat = [0, 0, 0, 1, 1, 0]\<rparr> 2 None =
     Inr \<lparr>shape = [2, 3, 1], flat = [0, 2, 1, 1, 2, 3]\<rparr>"
  by (simp add: calculate_values_def tabulate_keys_def tabulate0_def points_rows_def
      selected_cell_nodes_def plane_def p1_triangle_def np_take_def
      einsum_ijk_jl_ilk_def block_def Let_def upt_numeral replicate_2)

lemma plane_coordinates:
  "calculate_values (coordinates (mesh_of plane)) \<lparr>shape = [3, 2], flat = [0, 0, 0, 1, 1, 0]\<rparr> 2 None =
     Inr \<lparr>shape = [2, 3, 2], flat = [0, 0, 0, 1, 1, 0, 1, 0, 0, 1, 1, 1]\<rparr>"
  by (simp add: calculate_values_def tabulate_keys_def tabulate0_def points_rows_def
      selected_cell_nodes_def plane_def unit_square_def p1_triangle_def np_take_def
      einsum_ijk_jl_ilk_def block_def Let_def upt_numeral replicate_2)

lemma plane_vertices:
  "np_reshape \<lparr>shape = [2, 3, 1], flat = [0, 2, 1, 1, 2, 3 :: rat]\<rparr> [-1] =
     Inr \<lparr>shape = [6], flat = [0, 2, 1, 1, 2, 3]\<rparr>"
  "np_reshape \<lparr>shape = [2, 3, 2], flat = [0, 0, 0, 1, 1, 0, 1, 0, 0, 1, 1, 1 :: rat]\<rparr> [-1, 2] =
     Inr \<lparr>shape = [6, 2], flat = [0, 0, 0, 1, 1, 0, 1, 0, 0, 1, 1, 1]\<rparr>"
  "np_row (np_T \<lparr>shape = [6, 2], flat = [0, 0, 0, 1, 1, 0, 1, 0, 0, 1, 1, 1 :: rat]\<rparr>) 0 =
     Inr \<lparr>shape = [6], flat = [0, 0, 1, 1, 0, 1]\<rparr>"
  "np_row (np_T \<lparr>shape = [6, 2], flat = [0, 0, 0, 1, 1, 0, 1, 0, 0, 1, 1, 1 :: rat]\<rparr>) 1 =
     Inr \<lparr>shape = [6], flat = [0, 1, 0, 0, 1, 1]\<rparr>"
  by (simp_all add: np_reshape_def np_size_def np_T_def np_row_def block_def upt_numeral)

lemma plane_triangles:
  "offset_triangles \<lparr>shape = [1, 3], flat = [0, 1, 2]\<rparr> 2 (Max (set [0, 1, 2]) + 1) =
     Inr \<lparr>shape = [2, 3], flat = [0, 1, 2, 3, 4, 5]\<rparr>"
  by (simp add: offset_triangles_def np_reshape_def np_size_def upt_numeral)

lemma plane_Z:
  "two_dimension_triangle_Z example_env plane 10 =
     Inr (plane_triangulation, \<lparr>shape = [6], flat = [0, 2, 1, 1, 2, 3]\<rparr>)"
proof -
  have e: "matplotlib_importable example_env" by (simp add: example_env_def)
  have c: "shape0 (cell_node_list plane) = Inr 2" by (simp add: shape0_def plane_def)
  show ?thesis
    by (simp only: two_dimension_triangle_Z_def e c plane_reference reference_triangle_def
        plane_ref_points plane_values plane_coordinates plane_vertices plane_triangles
        plane_triangulation_def Let_def sum.case prod.case triangulation.simps ndarray.simps
        list.distinct simp_thms if_True if_False)
qed


theorem two_dimension_triangle_Z_offsets_witness:
  "two_dimension_triangle_Z example_env plane 10 =
     Inr (plane_triangulation, \<lparr>shape = [6], flat = [0, 2, 1, 1, 2, 3]\<rparr>) \<and>
   shape (triangles plane_triangulation) = [2, 3] \<and>
   flat (triangles plane_triangulation) = [0, 1, 2, 3, 4, 5] \<and>
   np_size (tri_x plane_triangulation) = 3 * 2 \<and>
   flat (triangles plane_triangulation) ! (1 * (1 * 3) + 2) = flat (triangles reference_triangle) ! 2 + 1 * 3"
proof -
  have ref: "reference_triangle = refine_triangulation example_env [0, 0, 1] [0, 1, 0] 0"
    by (simp only: plane_reference)
  have r: "shape (triangles reference_triangle) = [1, 3]" "wf_array (triangles reference_triangle)"
    "shape (tri_x reference_triangle) = [3]" "wf_array (tri_x reference_triangle)"
    "shape (tri_y reference_triangle) = [3]" "wf_array (tri_y reference_triangle)"
    "Max (set (flat (triangles reference_triangle))) + 1 = 3"
    by (simp_all add: reference_triangle_def wf_array_def)
  have p: "shape (cell_node_list plane) = [2, 3]"
    "shape (cell_node_list (coordinates (mesh_of plane))) = [2, 3]"
    "shape (data_ro (coordinates (mesh_of plane))) = [4, 2]"
    "ufl_shape (coordinates (mesh_of plane)) = [2]"
    by (simp_all add: plane_def unit_square_def)
  note th = two_dimension_triangle_Z_offsets [OF plane_Z plane_reference(1,2) ref r p]
  from th have "np_size (tri_x plane_triangulation) = 3 * 2" by (elim conjE)
  moreover from th have "\<forall>c < 2. \<forall>q < 1 * 3.
      flat (triangles plane_triangulation) ! (c * (1 * 3) + q)
        = flat (triangles reference_triangle) ! q + c * 3 \<and>
      c * 3 \<le> flat (triangles plane_triangulation) ! (c * (1 * 3) + q) \<and>
      flat (triangles plane_triangulation) ! (c * (1 * 3) + q) < (c + 1) * 3"
    by (elim conjE)
  then have "(1::nat) < 2 \<longrightarrow> (2::nat) < 1 * 3 \<longrightarrow>
      flat (triangles plane_triangulation) ! (1 * (1 * 3) + 2)
        = flat (triangles reference_triangle) ! 2 + 1 * 3"
    by blast
  then have "flat (triangles plane_triangulation) ! (1 * (1 * 3) + 2)
        = flat (triangles reference_triangle) ! 2 + 1 * 3"
    by simp
  moreover have "shape (triangles plane_triangulation) = [2, 3]"
    "flat (triangles plane_triangulation) = [0, 1, 2, 3, 4, 5]"
    by (simp_all add: plane_triangulation_def)
  ultimately show ?thesis using plane_Z by blast
qed


subsection \<open>The Bezier Reconstructor on degree one\<close>

lemma np_dot_identity2_flat:
  assumes "shape d = [c, 2]"
  shows "np_dot d \<lparr>shape = [2, 2], flat = [1, 0, 0, 1]\<rparr> =
     Inr \<lparr>shape = [c, 2],
          flat = concat (map (\<lambda>i. [block 2 (flat d) i ! 0, block 2 (flat d) i ! 1]) [0..<c])\<rparr>"
  using assms
  apply (simp add: np_dot_def Let_def)
  apply (simp add: block_def [of 4] upt_numeral)
  done

lemma np_dot_identity2:
  assumes "shape d = [c, 2]" "wf_array d"
  shows "np_dot d \<lparr>shape = [2, 2], flat = [1, 0, 0, 1]\<rparr> = Inr d"
proof -
  have len: "length (flat d) = c * 2" using assms by (simp add: wf_array_def)
  have row: "[block 2 (flat d) i ! 0, block 2 (flat d) i ! 1] = block 2 (flat d) i"
    if "i < c" for i
  proof -
    have "length (block 2 (flat d) i) = 2" using that len by (intro block_length) simp
    then show ?thesis by (rule list2)
  qed
  have "concat (map (\<lambda>i. [block 2 (flat d) i ! 0, block 2 (flat d) i ! 1]) [0..<c])
      = concat (map (block 2 (flat d)) [0..<c])"
    using row by (intro arg_cong [where f = concat] map_cong) simp_all
  also have "\<dots> = flat d" using len by (rule concat_blocks)
  finally have "concat (map (\<lambda>i. [block 2 (flat d) i ! 0, block 2 (flat d) i ! 1]) [0..<c])
      = flat d" .
  then show ?thesis
    using assms(1) by (simp add: np_dot_identity2_flat)
qed

lemma bezier_matrix_degree_1:
  assumes "degree f = 1" "node_coordinate (element f) 0 = Inr 0"
    "node_coordinate (element f) 1 = Inr 1"
  shows "bezier_matrix f = Inr \<lparr>shape = [2, 2], flat = [1, 0, 0, 1]\<rparr>"
  using assms
  by (simp add: bezier_matrix_def bernstein_def Let_def upt_rec [of 0 "Suc (Suc 0)"]
      upt_rec [of "Suc 0" "Suc (Suc 0)"] numeral_2_eq_2)

lemma inverse_identity2:
  "np_linalg_inv \<lparr>shape = [2, 2], flat = [1, 0, 0, 1]\<rparr> =
     Inr \<lparr>shape = [2, 2], flat = [1, 0, 0, 1]\<rparr>"
  by (simp add: np_linalg_inv_def block_def Let_def upt_numeral)

lemma np_take_flat_data:
  assumes "shape a = [n]" "wf_array a" "\<forall>i \<in> set (flat idx). i < n"
  shows "np_take a idx = Inr \<lparr>shape = shape idx, flat = map (\<lambda>i. flat a ! i) (flat idx)\<rparr>"
proof -
  have "block 1 (flat a) i = [flat a ! i]" if "i \<in> set (flat idx)" for i
  proof -
    from that assms have "i < length (flat a)" by (simp add: wf_array_def)
    then show ?thesis by (simp add: block_def take_Suc_conv_app_nth)
  qed
  then have "concat (map (block 1 (flat a)) (flat idx))
      = concat (map (\<lambda>i. [flat a ! i]) (flat idx))"
    by (intro arg_cong [where f = concat] map_cong) simp_all
  also have "\<dots> = map (\<lambda>i. flat a ! i) (flat idx)" by (induction "flat idx") auto
  finally show ?thesis using assms by (auto simp: np_take_def)
qed

text \<open>
  Claim C1. For a function of degree one whose element has its two nodes at the end
  points 0 and 1 of the reference interval, with a cell-node list of \<open>c\<close> cells and two
  nodes each that points into its \<open>n\<close> coefficients, the matrix \<open>M\<close> of the Bernstein
  values at the nodes is the identity of size two, and the control points that
  \<^verbatim>\<open>_bezier_calculate_points\<close> returns are the nodal values \<^verbatim>\<open>data_ro[cell_node_list]\<close>.
\<close>

theorem bezier_degree_1_round_trip:
  assumes deg: "degree f = 1"
    and nodes: "node_coordinate (element f) 0 = Inr 0" "node_coordinate (element f) 1 = Inr 1"
    and cnl: "shape (cell_node_list f) = [c, 2]" "wf_array (cell_node_list f)"
    and dat: "shape (data_ro f) = [n]" "wf_array (data_ro f)"
    and rng: "\<forall>i \<in> set (flat (cell_node_list f)). i < n"
  shows "bezier_matrix f = Inr \<lparr>shape = [2, 2], flat = [1, 0, 0, 1]\<rparr> \<and>
         bezier_calculate_points f = np_take (data_ro f) (cell_node_list f) \<and>
         bezier_calculate_points f =
           Inr \<lparr>shape = [c, 2],
                flat = map (\<lambda>i. flat (data_ro f) ! i) (flat (cell_node_list f))\<rparr>"
proof -
  let ?d = "\<lparr>shape = [c, 2], flat = map (\<lambda>i. flat (data_ro f) ! i) (flat (cell_node_list f))\<rparr>"
  have M: "bezier_matrix f = Inr \<lparr>shape = [2, 2], flat = [1, 0, 0, 1]\<rparr>"
    using deg nodes by (rule bezier_matrix_degree_1)
  have t: "np_take (data_ro f) (cell_node_list f) = Inr ?d"
    using np_take_flat_data [OF dat rng] cnl(1) by simp
  have "wf_array ?d" using cnl by (simp add: wf_array_def)
  then have "np_dot ?d \<lparr>shape = [2, 2], flat = [1, 0, 0, 1]\<rparr> = Inr ?d"
    by (intro np_dot_identity2) simp_all
  then have "bezier_calculate_points f = Inr ?d"
    by (simp add: bezier_calculate_points_def M inverse_identity2 t)
  with M t show ?thesis by simp
qed

theorem bezier_degree_1_round_trip_witness:
  "degree hat = 1 \<and> shape (cell_node_list hat) = [2, 2] \<and> shape (data_ro hat) = [3] \<and>
   list_all (\<lambda>i. i < 3) (flat (cell_node_list hat)) \<and>
   bezier_calculate_points hat = Inr \<lparr>shape = [2, 2], flat = [7, 11, 5, 7]\<rparr>"
proof -
  have rng: "\<forall>i \<in> set (flat (cell_node_list hat)). i < 3" by (simp add: hat_facts)
  have "bezier_calculate_points hat =
      Inr \<lparr>shape = [2, 2], flat = map (\<lambda>i. flat (data_ro hat) ! i) (flat (cell_node_list hat))\<rparr>"
    using bezier_degree_1_round_trip [OF hat_facts(1-7) rng] by blast
  then show ?thesis by (simp add: hat_facts)
qed

subsection \<open>The Bezier Reconstructor on degree four and above\<close>

lemma bezier_matrix_error:
  assumes "bezier_matrix f = Inl e"
  shows "e = IndexError"
proof -
  define entries where "entries = concat (map (\<lambda>i. map (\<lambda>j.
      case node_coordinate (element f) j of
        Inl e \<Rightarrow> Inl e
      | Inr x \<Rightarrow> (Inr (bernstein x i (degree f)) :: error + rat))
      [0..<degree f + 1]) [0..<degree f + 1])"
  have "collect entries = Inl e"
    using assms unfolding bezier_matrix_def Let_def entries_def [symmetric]
    by (simp split: sum.splits)
  then have "Inl e \<in> set entries" by (rule collect_error)
  then obtain j where "node_coordinate (element f) j = Inl e"
    unfolding entries_def by (auto split: sum.splits)
  then show ?thesis by (rule node_coordinate_error)
qed

lemma bezier_calculate_points_error:
  "bezier_calculate_points f = Inl e \<Longrightarrow> e = IndexError \<or> e = LinAlgError \<or> e = ValueError"
  by (auto simp: bezier_calculate_points_def split: sum.splits
      dest: bezier_matrix_error np_linalg_inv_error np_take_error np_dot_error)

lemma path_codes_None: "4 \<le> deg \<Longrightarrow> path_codes deg = None"
  by (simp add: path_codes_def)

lemma bezier_plot_high_degree:
  assumes "4 \<le> degree f"
  shows "\<exists>e. bezier_plot env f ax kwargs = Inl e \<and>
             (e = matplotlib_missing \<or> e = KeyError \<or> e = IndexError \<or>
              e = LinAlgError \<or> e = ValueError)"
  using assms
  by (subst bezier_plot.simps)
     (auto simp: path_codes_None split: sum.splits
       dest: bezier_calculate_points_error np_dstack_error np_reshape_error)

lemma bezier_plot_high_degree_KeyError:
  assumes "4 \<le> degree f" "matplotlib_importable env"
    "bezier_calculate_points f = Inr y_vals"
    "bezier_calculate_points (dg_function env (mesh_of f) (degree f) Expr_x0) = Inr x_vals"
    "np_dstack x_vals y_vals = Inr vals" "np_reshape vals [-1, 2] = Inr verts"
  shows "bezier_plot env f ax kwargs = Inl KeyError"
  using assms by (subst bezier_plot.simps) (simp add: path_codes_None)

lemma not_unsupported:
  "matplotlib_missing \<noteq> unsupported_functionality" "KeyError \<noteq> unsupported_functionality"
  "IndexError \<noteq> unsupported_functionality" "LinAlgError \<noteq> unsupported_functionality"
  "ValueError \<noteq> unsupported_functionality"
  by (simp_all add: matplotlib_missing_def unsupported_functionality_def)

lemma bezier_matrix_quartic: "bezier_matrix quartic = Inr quartic_matrix"
  unfolding quartic_matrix_def by code_simp

lemma bezier_matrix_data_ro: "bezier_matrix (f\<lparr>data_ro := d\<rparr>) = bezier_matrix f"
  by (simp add: bezier_matrix_def)

lemma quartic_matrix_inverse: "np_linalg_inv quartic_matrix = Inr quartic_inverse"
  by (simp add: quartic_matrix_def quartic_inverse_def np_linalg_inv_def block_def Let_def
      upt_numeral)

lemma bezier_points_quartic:
  "bezier_calculate_points quartic = Inr \<lparr>shape = [1, 5], flat = [0, 0, 0, 0, 1]\<rparr>"
  by (simp add: bezier_calculate_points_def bezier_matrix_quartic quartic_matrix_inverse)
     (simp add: quartic_def quartic_inverse_def np_take_def np_dot_def block_def Let_def
       upt_numeral)

lemma bezier_points_quartic_x:
  "bezier_calculate_points quartic_x =
     Inr \<lparr>shape = [1, 5], flat = [0, 1 / 4, 1 / 2, 3 / 4, 1]\<rparr>"
  by (simp add: bezier_calculate_points_def quartic_x_def bezier_matrix_data_ro
        bezier_matrix_quartic quartic_matrix_inverse)
     (simp add: quartic_def quartic_inverse_def np_take_def np_dot_def block_def Let_def
       upt_numeral)

lemma quartic_facts:
  "degree quartic = 4" "matplotlib_importable example_env"
  "dg_function example_env (mesh_of quartic) 4 Expr_x0 = quartic_x"
  by (simp_all add: quartic_def example_env_def dg_function_def quartic_x_def)

text \<open>
  Claim C3, as the code has it. \<^verbatim>\<open>bezier_plot\<close> has no check of the degree. On a function
  of degree four or more it never returns a figure: it raises, and the exception is never
  the unsupported-functionality error. It is the \<^verbatim>\<open>KeyError\<close> of the lookup
  \<^verbatim>\<open>codes[deg]\<close> whenever the plotting library is present and the control points have been
  computed and stacked, and otherwise the exception of an earlier step (the missing
  plotting library, or an \<^verbatim>\<open>IndexError\<close>, \<^verbatim>\<open>LinAlgError\<close> or \<^verbatim>\<open>ValueError\<close> of the
  computation of the control points).
\<close>

theorem bezier_plot_degree_ge_4_raises:
  assumes "4 \<le> degree f"
  shows "(\<exists>e. bezier_plot env f ax kwargs = Inl e \<and> e \<noteq> unsupported_functionality \<and>
              (e = matplotlib_missing \<or> e = KeyError \<or> e = IndexError \<or>
               e = LinAlgError \<or> e = ValueError)) \<and>
         (matplotlib_importable env \<and>
          bezier_calculate_points f = Inr y_vals \<and>
          bezier_calculate_points (dg_function env (mesh_of f) (degree f) Expr_x0) = Inr x_vals \<and>
          np_dstack x_vals y_vals = Inr vals \<and> np_reshape vals [-1, 2] = Inr verts \<longrightarrow>
          bezier_plot env f ax kwargs = Inl KeyError)"
proof (intro conjI impI)
  obtain e where e: "bezier_plot env f ax kwargs = Inl e"
    "e = matplotlib_missing \<or> e = KeyError \<or> e = IndexError \<or> e = LinAlgError \<or> e = ValueError"
    using bezier_plot_high_degree [OF assms] by blast
  from e(2) have "e \<noteq> unsupported_functionality" using not_unsupported by auto
  with e show "\<exists>e. bezier_plot env f ax kwargs = Inl e \<and> e \<noteq> unsupported_functionality \<and>
              (e = matplotlib_missing \<or> e = KeyError \<or> e = IndexError \<or>
               e = LinAlgError \<or> e = ValueError)"
    by blast
next
  assume "matplotlib_importable env \<and>
          bezier_calculate_points f = Inr y_vals \<and>
          bezier_calculate_points (dg_function env (mesh_of f) (degree f) Expr_x0) = Inr x_vals \<and>
          np_dstack x_vals y_vals = Inr vals \<and> np_reshape vals [-1, 2] = Inr verts"
  then show "bezier_plot env f ax kwargs = Inl KeyError"
    using bezier_plot_high_degree_KeyError [OF assms] by blast
qed

theorem bezier_plot_degree_ge_4_raises_witness:
  "(4::nat) \<le> degree quartic \<and>
   (\<exists>e. bezier_plot example_env quartic (Some []) [] = Inl e \<and> e \<noteq> unsupported_functionality)"
  using bezier_plot_degree_ge_4_raises [of quartic example_env "Some []" "[]"]
  by (simp add: quartic_facts) blast

text \<open>
  The claim as the specification states it fails on the function \<open>x\<^sup>4\<close> of degree four:
  the call raises \<^verbatim>\<open>KeyError\<close>, which is not the unsupported-functionality error.
\<close>

theorem bezier_plot_quartic_KeyError_counterexample:
  "(4::nat) \<le> degree quartic \<and>
   bezier_plot example_env quartic None [] = Inl KeyError \<and>
   KeyError \<noteq> unsupported_functionality"
proof -
  have "bezier_plot example_env quartic None [] = Inl KeyError"
    by (subst bezier_plot.simps)
       (simp add: quartic_facts bezier_points_quartic bezier_points_quartic_x np_dstack_def
         atleast_3d_def np_reshape_def np_size_def block_def path_codes_def Let_def upt_numeral)
  then show ?thesis by (simp add: quartic_facts unsupported_functionality_def)
qed

subsection \<open>The renderers return a figure, nothing, or raise\<close>

lemma bezier_plot_not_None: "bezier_plot env f ax kwargs \<noteq> Inr PyNone"
proof (induction env f ax kwargs rule: bezier_plot.induct)
  case (1 env f ax kwargs)
  show ?case
  proof (cases "matplotlib_importable env \<and> degree f = 0")
    case True
    then show ?thesis using 1 by (subst bezier_plot.simps) simp
  next
    case False
    then show ?thesis
      by (subst bezier_plot.simps) (auto split: sum.splits option.splits)
  qed
qed

lemma interp_bezier_not_None: "interp_bezier env pts n ax kwargs \<noteq> Inr PyNone"
  by (auto simp: interp_bezier_def split: sum.splits)

lemma two_dimension_surface_not_None:
  "two_dimension_surface env f n ax kwargs \<noteq> Inr PyNone"
  by (auto simp: two_dimension_surface_def split: sum.splits prod.splits)

lemma two_dimension_contour_not_None:
  "two_dimension_contour env f n ax kwargs \<noteq> Inr PyNone"
  by (auto simp: two_dimension_contour_def split: sum.splits prod.splits)

lemma plot_function_not_None: "plot_function env f n ax kwargs \<noteq> Inr PyNone"
proof -
  have line: "(case calculate_one_dim_points f m None of
       Inl e \<Rightarrow> Inl e
     | Inr points \<Rightarrow>
         if b then interp_bezier env points c ax kw
         else (case np_row points 0 of
                 Inl e \<Rightarrow> Inl e
               | Inr p0 \<Rightarrow>
              (case np_row points 1 of
                 Inl e \<Rightarrow> Inl e
               | Inr p1 \<Rightarrow> Inr (Figure (new_axes ax @ [Line2D p0 p1 kw])))))
     \<noteq> Inr PyNone" for m b c kw
    by (simp add: interp_bezier_not_None split: sum.splits)
  show ?thesis
    unfolding plot_function_def Let_def
    by (simp add: bezier_plot_not_None line
        two_dimension_surface_not_None two_dimension_contour_not_None
        split: prod.splits)
qed

lemma plot_mult_not_None: "fs \<noteq> [] \<Longrightarrow> plot_mult env fs n kwargs \<noteq> Inr PyNone"
  by (cases fs) (auto split: sum.splits)

lemma interactive_multiple_plot_no_figure:
  "interactive_multiple_plot env fs n kwargs \<noteq> Inr (Figure a)"
  by (auto simp: interactive_multiple_plot_def Let_def split: option.splits)

lemma figure_or_error: "r \<noteq> Inr PyNone \<Longrightarrow> (\<exists>e. r = Inl e) \<or> (\<exists>a. r = Inr (Figure a))"
  by (cases r) (auto intro: pyval.exhaust)

text \<open>
  Claim C9, as the code has it. \<^verbatim>\<open>plot\<close> on a function, and \<^verbatim>\<open>plot\<close> and the
  multi-function renderer on a list that is not empty, return a figure or raise. On the
  empty list the multi-function renderer returns \<^verbatim>\<open>None\<close> by its own guard
  (\<^verbatim>\<open>if len(functions) == 0: return None\<close>), when the plotting library is present. The
  notebook renderer has no \<^verbatim>\<open>return\<close> statement: it never returns a figure.
\<close>

theorem renderers_return_figure_or_raise:
  "((\<exists>e. plot env (Fn f) n ax kwargs = Inl e) \<or> (\<exists>a. plot env (Fn f) n ax kwargs = Inr (Figure a))) \<and>
   (fs \<noteq> [] \<longrightarrow>
      ((\<exists>e. plot env (Fns fs) n ax kwargs = Inl e) \<or>
       (\<exists>a. plot env (Fns fs) n ax kwargs = Inr (Figure a))) \<and>
      ((\<exists>e. plot_mult env fs n kwargs = Inl e) \<or>
       (\<exists>a. plot_mult env fs n kwargs = Inr (Figure a)))) \<and>
   (matplotlib_importable env \<longrightarrow>
      plot env (Fns []) n ax kwargs = Inr PyNone \<and> plot_mult env [] n kwargs = Inr PyNone) \<and>
   ((\<exists>e. interactive_multiple_plot env fs n kwargs = Inl e) \<or>
    interactive_multiple_plot env fs n kwargs = Inr PyNone)"
proof (intro conjI impI)
  show "(\<exists>e. plot env (Fn f) n ax kwargs = Inl e) \<or>
        (\<exists>a. plot env (Fn f) n ax kwargs = Inr (Figure a))"
    by (rule figure_or_error) (simp add: plot_function_not_None)
next
  assume "fs \<noteq> []"
  then have "plot_mult env fs n kwargs \<noteq> Inr PyNone" by (rule plot_mult_not_None)
  then show "(\<exists>e. plot_mult env fs n kwargs = Inl e) \<or>
             (\<exists>a. plot_mult env fs n kwargs = Inr (Figure a))"
    by (rule figure_or_error)
  then show "(\<exists>e. plot env (Fns fs) n ax kwargs = Inl e) \<or>
             (\<exists>a. plot env (Fns fs) n ax kwargs = Inr (Figure a))"
    by simp
next
  assume "matplotlib_importable env"
  then show "plot env (Fns []) n ax kwargs = Inr PyNone" "plot_mult env [] n kwargs = Inr PyNone"
    by simp_all
next
  show "(\<exists>e. interactive_multiple_plot env fs n kwargs = Inl e) \<or>
        interactive_multiple_plot env fs n kwargs = Inr PyNone"
    using interactive_multiple_plot_no_figure [of env fs n kwargs]
    by (cases "interactive_multiple_plot env fs n kwargs")
       (auto intro: pyval.exhaust)
qed

theorem renderers_return_figure_or_raise_witness:
  "[Fn hat] \<noteq> [] \<and> matplotlib_importable example_env \<and>
   ((\<exists>e. plot example_env (Fns [Fn hat]) 10 None [] = Inl e) \<or>
    (\<exists>a. plot example_env (Fns [Fn hat]) 10 None [] = Inr (Figure a))) \<and>
   plot_mult example_env [] 10 [] = Inr PyNone"
  using renderers_return_figure_or_raise [of example_env hat 10 None "[]" "[Fn hat]"]
  by (simp add: example_env_def)

text \<open>
  The claim as the specification states it fails on the empty list: \<^verbatim>\<open>plot\<close> returns
  \<^verbatim>\<open>None\<close>, neither a figure nor an exception.
\<close>

theorem plot_empty_list_counterexample:
  "plot example_env (Fns []) 100 None [] = Inr PyNone"
  by (simp add: example_env_def)

subsection \<open>Unsupported dimensions\<close>

text \<open>
  Claim C8. With the plotting library present, \<^verbatim>\<open>plot\<close> on a single function whose mesh
  has a pair of geometric and topological dimension other than \<open>(1, 1)\<close> and \<open>(2, 2)\<close>
  raises the unsupported-functionality error. (Without the library the import at the
  start of \<^verbatim>\<open>plot\<close> raises the missing-dependency error first.)
\<close>

theorem plot_unsupported_dimensions:
  assumes "matplotlib_importable env"
    and "(geometric_dimension (mesh_of f), topological_dimension (mesh_of f)) \<noteq> (1, 1)"
    and "(geometric_dimension (mesh_of f), topological_dimension (mesh_of f)) \<noteq> (2, 2)"
  shows "plot env (Fn f) num_sample_points ax kwargs = Inl unsupported_functionality"
  using assms by (auto simp: plot_function_def)

theorem plot_unsupported_dimensions_witness:
  "matplotlib_importable example_env \<and>
   (geometric_dimension (mesh_of height), topological_dimension (mesh_of height)) = (3, 3) \<and>
   plot example_env (Fn height) 100 None [] = Inl (RuntimeError ''Unsupported functionality'')"
proof -
  have h: "matplotlib_importable example_env"
    "(geometric_dimension (mesh_of height), topological_dimension (mesh_of height)) = (3, 3)"
    by (simp_all add: example_env_def height_def unit_tetrahedron_def)
  have "plot example_env (Fn height) 100 None [] = Inl unsupported_functionality"
    by (rule plot_unsupported_dimensions) (simp_all add: h)
  then show ?thesis using h by (simp add: unsupported_functionality_def)
qed

end
